theory Spec2Isabelle
  imports Main "HOL-Library.Char_ord" "HOL-Library.List_Lexorder" "HOL-Library.Multiset"
begin

section \<open>Entity references\<close>

text \<open>
  A \<^verbatim>\<open>charm.Reference\<close> names an entity. The handlers read and write the fields
  \<^verbatim>\<open>User\<close>, \<^verbatim>\<open>Name\<close>, \<^verbatim>\<open>Revision\<close> and \<^verbatim>\<open>Series\<close>; the revision is a Go
  \<^verbatim>\<open>int\<close>, with \<open>-1\<close> for "not specified".
\<close>

record Reference =
  User :: string
  Name :: string
  Revision :: int
  Series :: string

text \<open>Go's \<^verbatim>\<open>int\<close> is a 64-bit two's complement integer: addition wraps around.\<close>

definition int_wrap :: "int \<Rightarrow> int" where
  "int_wrap x = (x + 2 ^ 63) mod 2 ^ 64 - 2 ^ 63"

definition baseURL :: "Reference \<Rightarrow> Reference" where
  "baseURL url = url\<lparr>Revision := - 1, Series := ''''\<rparr>"

definition matchURL :: "Reference \<Rightarrow> Reference \<Rightarrow> bool" where
  "matchURL url pattern =
     (if Series pattern \<noteq> '''' \<and> Series url \<noteq> Series pattern then False
      else if Revision pattern \<noteq> - 1 \<and> Revision url \<noteq> Revision pattern then False
      else Name url = Name pattern)"

section \<open>Errors\<close>

text \<open>
  An error carries the cause that \<^verbatim>\<open>errgo.Cause\<close> reports and its message. The causes
  are the sentinel errors of the \<^verbatim>\<open>params\<close> package; \<open>NoCause\<close> stands for an error
  that is its own cause (an \<^verbatim>\<open>errgo\<close> error with no cause set, or an error of a
  library). A message keeps a format string and its arguments apart, so that no
  rendering of a reference has to be fixed; \<open>Prefixed p m\<close> is what \<^verbatim>\<open>errgo.Notef\<close>
  builds: the new message, a colon and a space, and the message of the error below.
\<close>

datatype cause = ErrNotFound | ErrDuplicateUpload | ErrBadRequest | ErrForbidden | NoCause

datatype fmtarg = ArgRef Reference | ArgStr string

datatype message = Text string | Fmt string "fmtarg list" | Prefixed message message

record err =
  cause :: cause
  msg :: message

text \<open>
  The text of a message (\<^verbatim>\<open>Error()\<close>), given the rendering \<open>sp\<close> of a format string
  with its arguments (\<^verbatim>\<open>fmt.Sprintf\<close>).
\<close>

fun Error :: "(string \<Rightarrow> fmtarg list \<Rightarrow> string) \<Rightarrow> message \<Rightarrow> string" where
  "Error sp (Text s) = s"
| "Error sp (Fmt f as) = sp f as"
| "Error sp (Prefixed p m) = Error sp p @ '': '' @ Error sp m"

definition errgo_New :: "string \<Rightarrow> err" where
  "errgo_New s = \<lparr>cause = NoCause, msg = Text s\<rparr>"

definition errgo_Newf :: "string \<Rightarrow> fmtarg list \<Rightarrow> err" where
  "errgo_Newf f as = \<lparr>cause = NoCause, msg = Fmt f as\<rparr>"

definition errgo_Notef :: "err \<Rightarrow> string \<Rightarrow> fmtarg list \<Rightarrow> err" where
  "errgo_Notef e f as =
     \<lparr>cause = NoCause, msg = Prefixed (if as = [] then Text f else Fmt f as) (msg e)\<rparr>"

text \<open>
  \<^verbatim>\<open>errgo.Mask(err, pass...)\<close> keeps the message and keeps the cause only when one of
  the \<open>pass\<close> predicates accepts it; \<^verbatim>\<open>errgo.Is(c)\<close> is the predicate "is \<open>c\<close>".
\<close>

definition errgo_Mask :: "err \<Rightarrow> (cause \<Rightarrow> bool) \<Rightarrow> err" where
  "errgo_Mask e pass = \<lparr>cause = (if pass (cause e) then cause e else NoCause), msg = msg e\<rparr>"

definition errgo_NoteMask :: "err \<Rightarrow> string \<Rightarrow> (cause \<Rightarrow> bool) \<Rightarrow> err" where
  "errgo_NoteMask e s pass =
     \<lparr>cause = (if pass (cause e) then cause e else NoCause), msg = Prefixed (Text s) (msg e)\<rparr>"

text \<open>
  Modelled from the spec: the sentinel errors of the \<^verbatim>\<open>params\<close> package are not among
  the sources; each is its own cause, the spec's error kind of the same name, and its
  text is that name in words.
\<close>

fun cause_text :: "cause \<Rightarrow> string" where
  "cause_text ErrNotFound = ''not found''"
| "cause_text ErrDuplicateUpload = ''duplicate upload''"
| "cause_text ErrBadRequest = ''bad request''"
| "cause_text ErrForbidden = ''forbidden''"
| "cause_text NoCause = ''''"

text \<open>
  \<^verbatim>\<open>errgo.WithCausef(nil, cause, f, a...)\<close>: an error with the given cause; with an
  empty format and no argument its message is that of the cause.
\<close>

definition errgo_WithCausef :: "cause \<Rightarrow> string \<Rightarrow> fmtarg list \<Rightarrow> err" where
  "errgo_WithCausef c f as =
     \<lparr>cause = c,
      msg = (if f = '''' \<and> as = [] then Text (cause_text c)
             else if as = [] then Text f else Fmt f as)\<rparr>"

definition errgo_Is :: "cause \<Rightarrow> cause \<Rightarrow> bool" where
  "errgo_Is c c' = (c' = c)"

definition no_pass :: "cause \<Rightarrow> bool" where
  "no_pass c = False"

definition params_ErrNotFound :: err where
  "params_ErrNotFound = \<lparr>cause = ErrNotFound, msg = Text (cause_text ErrNotFound)\<rparr>"

definition params_ErrDuplicateUpload :: err where
  "params_ErrDuplicateUpload =
     \<lparr>cause = ErrDuplicateUpload, msg = Text (cause_text ErrDuplicateUpload)\<rparr>"

text \<open>
  Modelled from the spec: \<^verbatim>\<open>badRequestf\<close> is not among the sources; the spec's
  \<^bold>\<open>BadRequest\<close> kind is an error whose cause is \<^verbatim>\<open>params.ErrBadRequest\<close>.
\<close>

definition badRequestf :: "string \<Rightarrow> err" where
  "badRequestf f = errgo_WithCausef ErrBadRequest f []"

text \<open>
  The errors of the database driver. \<^verbatim>\<open>mgo.IsDup\<close> recognises the first,
  \<^verbatim>\<open>mgo.ErrNotFound\<close> is the second, and the third is any other failure.
\<close>

datatype mgo_error = MgoDup | MgoNotFound | MgoFailure

definition mgo_IsDup :: "mgo_error option \<Rightarrow> bool" where
  "mgo_IsDup e = (e = Some MgoDup)"

fun mgo_err :: "mgo_error \<Rightarrow> err" where
  "mgo_err MgoDup = \<lparr>cause = NoCause, msg = Text ''duplicate key error''\<rparr>"
| "mgo_err MgoNotFound = \<lparr>cause = NoCause, msg = Text ''not found''\<rparr>"
| "mgo_err MgoFailure = \<lparr>cause = NoCause, msg = Text ''database failure''\<rparr>"

definition io_failure :: "string \<Rightarrow> err" where
  "io_failure what = \<lparr>cause = NoCause, msg = Text what\<rparr>"

section \<open>Documents\<close>

record Relation =
  RelName :: string
  Interface :: string

text \<open>
  The relation maps of a charm's metadata, as association lists: Go ranges over a map in
  no fixed order, and the list order stands for the order of one run.
\<close>

record Meta =
  Provides :: "(string \<times> Relation) list"
  Requires :: "(string \<times> Relation) list"
  Peers :: "(string \<times> Relation) list"

text \<open>A bundle's data: for each service, its name and the id of the charm it deploys.\<close>

record BundleData =
  Services :: "(string \<times> string) list"

text \<open>
  Modelled from the spec: \<^verbatim>\<open>mongodoc.ZipFile\<close> is not among the sources. The spec's
  locator of a file inside an archive: a validity bit, and where the file's data is. The
  zero value is the marker "searched for and not found".
\<close>

record ZipFile =
  IsValid :: bool
  Offset :: int
  CompressedSize :: int
  UncompressedSize :: int
  Method :: int

definition ZipFile_zero :: ZipFile where
  "ZipFile_zero =
     \<lparr>IsValid = False, Offset = 0, CompressedSize = 0, UncompressedSize = 0, Method = 0\<rparr>"

datatype FileId = FileReadMe | FileIcon

text \<open>
  The fields of \<^verbatim>\<open>mongodoc.Entity\<close> that take part in a decision of the archive
  handlers or of the store. A charm's configuration, actions and interface lists and a
  bundle's unit and machine counts and readme are stored as they are read and are left
  out. The field selection of a query (\<^verbatim>\<open>selectFields\<close>) limits what is loaded; every
  handler here reads only fields it selects, and the model returns whole documents.
  \<^verbatim>\<open>Contents\<close> is a Go map, here a partial function.
\<close>

record Entity =
  URL :: Reference
  BaseURL :: Reference
  EUser :: string
  EName :: string
  ERevision :: int
  ESeries :: string
  BlobHash :: string
  BlobName :: string
  Size :: int
  UploadTime :: int
  CharmMeta :: "Meta option"
  BundleData :: "BundleData option"
  BundleCharms :: "Reference list"
  Contents :: "FileId \<Rightarrow> ZipFile option"
  PromulgatedURL :: "Reference option"
  PromulgatedRevision :: int

record ACL =
  Read :: "string list"
  Write :: "string list"

record BaseEntity =
  BURL :: Reference
  BUser :: string
  BName :: string
  Public :: bool
  ACLs :: ACL
  Promulgated :: bool

text \<open>What \<^verbatim>\<open>entityCharm\<close> shows of a stored charm to the bundle verifier.\<close>

record CharmView =
  VMeta :: "Meta option"
  VRevision :: int

definition entityCharm :: "Entity \<Rightarrow> CharmView" where
  "entityCharm e = \<lparr>VMeta = CharmMeta e, VRevision = Revision (URL e)\<rparr>"

text \<open>
  What \<^verbatim>\<open>BundleData.VerifyWithCharms\<close> returns: a \<^verbatim>\<open>*charm.VerificationError\<close> with
  the messages of its errors, or an error of another type.
\<close>

datatype verify_error = VerificationError "string list" | OtherError err

text \<open>An entry of a zip directory (\<^verbatim>\<open>zip.File\<close>), by its name.\<close>

record zip_File =
  FName :: string
  FIsDir :: bool

text \<open>
  An XML token: a start element with the space and the local part of its name and its
  attributes (each a name, space and local part, and a value), or any other token.
\<close>

datatype Token = StartElement string string "((string \<times> string) \<times> string) list" | OtherToken string

section \<open>The store and its collaborators\<close>

text \<open>
  The storage calls a handler makes, in the order it makes them (a call is recorded
  whether or not it succeeds).
\<close>

datatype call =
    BlobPut string
  | BlobOpen string
  | BlobRemove string
  | BaseInsert Reference
  | EntityInsert Reference
  | EntityRemove Reference
  | EntityUpdate Reference FileId ZipFile
  | SearchUpdate Reference

text \<open>
  The state behind a \<^verbatim>\<open>Store\<close>: the blob store (blob name to bytes), the
  \<^verbatim>\<open>entities\<close> and \<^verbatim>\<open>base_entities\<close> collections in their natural order, the
  documents sent to the search index, the counter keys handed to
  \<^verbatim>\<open>IncCounterAsync\<close>, and the storage calls made so far.
\<close>

record store =
  blobs :: "string \<Rightarrow> string option"
  entities :: "Entity list"
  base_entities :: "BaseEntity list"
  indexed :: "Reference list"
  counters :: "(string \<times> Reference) list"
  calls :: "call list"

text \<open>
  The places where a collaborator (blob store, database, search index, response writer)
  can fail for reasons of its own.
\<close>

datatype site =
    AtPutBlob | AtOpenBlob | AtRemoveBlob
  | AtFindLatest | AtFindBundleCharms | AtFindExisting | AtFindOne | AtFindId
  | AtInsertBase | AtInsertEntity | AtRemoveEntity | AtUpdateContents
  | AtUpdateSearch | AtWriteResponse

text \<open>
  Everything the sources use and do not contain, as parameters of the model: the fresh
  object id (\<^verbatim>\<open>bson.NewObjectId().Hex()\<close>) and the clock; which collaborator calls
  fail; the hash of a byte string; the archive readers, the required charms and the
  verifier of a bundle (called with \<^verbatim>\<open>verifyConstraints\<close>) and the reference parser
  of the \<^verbatim>\<open>charm\<close> package; the handler's \<^verbatim>\<open>resolveURL\<close>, which reads the store;
  \<^verbatim>\<open>json.Marshal\<close> on a list of strings; the directory of a zip archive, the
  locator of a file in it (\<^verbatim>\<open>NewZipFile\<close>) and the reader of a located file
  (\<^verbatim>\<open>ZipFileReader\<close>); \<^verbatim>\<open>path.Clean\<close>; the XML decoder, which yields the tokens it
  could read and the error that stopped it, if any, and the XML encoder; and the default
  icon. Archives and blobs are byte strings.
\<close>

record env =
  NewObjectId :: string
  Now :: int
  fails :: "site \<Rightarrow> bool"
  SHA384 :: "string \<Rightarrow> string"
  ReadCharmArchive :: "string \<Rightarrow> int \<Rightarrow> err + Meta"
  ReadBundleArchive :: "string \<Rightarrow> int \<Rightarrow> err + BundleData"
  RequiredCharms :: "BundleData \<Rightarrow> string list"
  VerifyWithCharms :: "BundleData \<Rightarrow> (string \<Rightarrow> CharmView option) \<Rightarrow> verify_error option"
  ParseReference :: "string \<Rightarrow> err + Reference"
  resolveURL :: "store \<Rightarrow> Reference \<Rightarrow> err + Reference"
  json_Marshal :: "string list \<Rightarrow> err + string"
  zip_NewReader :: "string \<Rightarrow> int \<Rightarrow> err + zip_File list"
  NewZipFile :: "zip_File \<Rightarrow> ZipFile \<times> err option"
  ZipFileReader :: "string \<Rightarrow> ZipFile \<Rightarrow> err + string"
  path_Clean :: "string \<Rightarrow> string"
  xml_Tokens :: "string \<Rightarrow> Token list \<times> err option"
  xml_Encode :: "Token list \<Rightarrow> string"
  defaultIcon :: string

subsection \<open>Blob store\<close>

text \<open>
  Modelled from the spec: the \<^verbatim>\<open>blobstore\<close> package is not among the sources.
  \<^verbatim>\<open>put\<close> writes exactly \<open>size\<close> bytes under \<open>name\<close> and fails if the streamed SHA-384
  does not match \<open>hash\<close> or if \<open>name\<close> already exists; \<^verbatim>\<open>open\<close> returns the bytes and
  their size; \<^verbatim>\<open>remove\<close> is idempotent on a missing name.
\<close>

definition BlobStore_PutUnchallenged ::
  "env \<Rightarrow> store \<Rightarrow> string \<Rightarrow> string \<Rightarrow> int \<Rightarrow> string \<Rightarrow> err option \<times> store" where
  "BlobStore_PutUnchallenged env s body name sz hash =
     (let s' = s\<lparr>calls := calls s @ [BlobPut name]\<rparr> in
      if fails env AtPutBlob then (Some (io_failure ''blob store failure''), s')
      else if blobs s name \<noteq> None then (Some (io_failure ''blob already exists''), s')
      else if int (length body) \<noteq> sz then (Some (io_failure ''size mismatch''), s')
      else if SHA384 env body \<noteq> hash then (Some (io_failure ''hash mismatch''), s')
      else (None, s'\<lparr>blobs := (blobs s)(name \<mapsto> body)\<rparr>))"

definition BlobStore_Open :: "env \<Rightarrow> store \<Rightarrow> string \<Rightarrow> (err + string \<times> int) \<times> store" where
  "BlobStore_Open env s name =
     (let s' = s\<lparr>calls := calls s @ [BlobOpen name]\<rparr> in
      if fails env AtOpenBlob then (Inl (io_failure ''blob store failure''), s')
      else case blobs s name of
        None \<Rightarrow> (Inl (io_failure ''blob not found''), s')
      | Some data \<Rightarrow> (Inr (data, int (length data)), s'))"

definition BlobStore_Remove :: "env \<Rightarrow> store \<Rightarrow> string \<Rightarrow> err option \<times> store" where
  "BlobStore_Remove env s name =
     (let s' = s\<lparr>calls := calls s @ [BlobRemove name]\<rparr> in
      if fails env AtRemoveBlob then (Some (io_failure ''blob store failure''), s')
      else (None, s'\<lparr>blobs := (blobs s)(name := None)\<rparr>))"

subsection \<open>Database collections\<close>

text \<open>
  The \<^verbatim>\<open>mgo\<close> calls the sources make on the two collections. Documents are keyed by
  their \<^verbatim>\<open>_id\<close> (the URL): an insert of a present key is a duplicate-key error, and
  \<^verbatim>\<open>RemoveId\<close>, \<^verbatim>\<open>UpdateId\<close> and \<^verbatim>\<open>One\<close> report \<^verbatim>\<open>mgo.ErrNotFound\<close> when no
  document has the key.
\<close>

definition Entities_Find ::
  "env \<Rightarrow> site \<Rightarrow> store \<Rightarrow> (Entity \<Rightarrow> bool) \<Rightarrow> mgo_error + Entity list" where
  "Entities_Find env at s q =
     (if fails env at then Inl MgoFailure else Inr (filter q (entities s)))"

definition Entities_FindId_One :: "env \<Rightarrow> store \<Rightarrow> Reference \<Rightarrow> mgo_error + Entity" where
  "Entities_FindId_One env s eid =
     (if fails env AtFindId then Inl MgoFailure
      else case filter (\<lambda>doc. URL doc = eid) (entities s) of
        [] \<Rightarrow> Inl MgoNotFound
      | doc # _ \<Rightarrow> Inr doc)"

definition Entities_Insert :: "env \<Rightarrow> store \<Rightarrow> Entity \<Rightarrow> mgo_error option \<times> store" where
  "Entities_Insert env s doc =
     (let s' = s\<lparr>calls := calls s @ [EntityInsert (URL doc)]\<rparr> in
      if fails env AtInsertEntity then (Some MgoFailure, s')
      else if URL doc \<in> set (map URL (entities s)) then (Some MgoDup, s')
      else (None, s'\<lparr>entities := entities s @ [doc]\<rparr>))"

definition Entities_RemoveId :: "env \<Rightarrow> store \<Rightarrow> Reference \<Rightarrow> mgo_error option \<times> store" where
  "Entities_RemoveId env s eid =
     (let s' = s\<lparr>calls := calls s @ [EntityRemove eid]\<rparr> in
      if fails env AtRemoveEntity then (Some MgoFailure, s')
      else if eid \<notin> set (map URL (entities s)) then (Some MgoNotFound, s')
      else (None, s'\<lparr>entities := filter (\<lambda>doc. URL doc \<noteq> eid) (entities s)\<rparr>))"

definition Entities_UpdateId ::
  "env \<Rightarrow> store \<Rightarrow> Reference \<Rightarrow> FileId \<Rightarrow> ZipFile \<Rightarrow> mgo_error option \<times> store" where
  "Entities_UpdateId env s eid fileId zipf =
     (let s' = s\<lparr>calls := calls s @ [EntityUpdate eid fileId zipf]\<rparr> in
      if fails env AtUpdateContents then (Some MgoFailure, s')
      else if eid \<notin> set (map URL (entities s)) then (Some MgoNotFound, s')
      else (None, s'\<lparr>entities :=
              map (\<lambda>doc. if URL doc = eid
                          then doc\<lparr>Contents := (Contents doc)(fileId \<mapsto> zipf)\<rparr> else doc)
                (entities s)\<rparr>))"

definition BaseEntities_Insert :: "env \<Rightarrow> store \<Rightarrow> BaseEntity \<Rightarrow> mgo_error option \<times> store" where
  "BaseEntities_Insert env s doc =
     (let s' = s\<lparr>calls := calls s @ [BaseInsert (BURL doc)]\<rparr> in
      if fails env AtInsertBase then (Some MgoFailure, s')
      else if BURL doc \<in> set (map BURL (base_entities s)) then (Some MgoDup, s')
      else (None, s'\<lparr>base_entities := base_entities s @ [doc]\<rparr>))"

subsection \<open>Search index and counters\<close>

text \<open>
  Modelled from the spec: \<^verbatim>\<open>UpdateSearch\<close> is not among the sources. One search-index
  document upsert for the entity; it can fail.
\<close>

definition UpdateSearch :: "env \<Rightarrow> store \<Rightarrow> Reference \<Rightarrow> err option \<times> store" where
  "UpdateSearch env s url =
     (let s' = s\<lparr>calls := calls s @ [SearchUpdate url]\<rparr> in
      if fails env AtUpdateSearch then (Some (io_failure ''search index failure''), s')
      else (None, s'\<lparr>indexed := indexed s @ [url]\<rparr>))"

text \<open>
  Modelled from the spec: \<^verbatim>\<open>EntityStatsKey\<close> and \<^verbatim>\<open>IncCounterAsync\<close> are not among
  the sources. A counter key is derived from the entity id and an event kind; the
  increment is requested and carried out in the background.
\<close>

definition EntityStatsKey :: "Reference \<Rightarrow> string \<Rightarrow> string \<times> Reference" where
  "EntityStatsKey eid kind = (kind, eid)"

definition IncCounterAsync :: "store \<Rightarrow> string \<times> Reference \<Rightarrow> store" where
  "IncCounterAsync s key = s\<lparr>counters := counters s @ [key]\<rparr>"

definition StatsArchiveDownload :: string where "StatsArchiveDownload = ''archive-download''"
definition StatsArchiveDelete :: string where "StatsArchiveDelete = ''archive-delete''"
definition StatsArchiveFailedUpload :: string where
  "StatsArchiveFailedUpload = ''archive-failed-upload''"
definition StatsArchiveUpload :: string where "StatsArchiveUpload = ''archive-upload''"

section \<open>The store (\<^verbatim>\<open>internal/charmstore/store.go\<close>)\<close>

record AddParams =
  PURL :: Reference
  PBlobName :: string
  PBlobHash :: string
  PBlobSize :: int
  PContents :: "FileId \<Rightarrow> ZipFile option"
  PPromulgatedURL :: "Reference option"
  PPromulgatedRevision :: int

text \<open>
  Modelled from the spec: \<^verbatim>\<open>params.Everyone\<close> is not among the sources; it is the
  ACL entry that stands for every user.
\<close>

definition params_Everyone :: string where
  "params_Everyone = ''everyone''"

definition everyonePerm :: "string list" where
  "everyonePerm = [params_Everyone]"

definition FindEntities :: "env \<Rightarrow> site \<Rightarrow> store \<Rightarrow> Reference \<Rightarrow> err + Entity list" where
  "FindEntities env at s url =
     (let q = (if Series url = '''' \<or> Revision url = - 1
               then (\<lambda>doc. BaseURL doc = baseURL url)
               else (\<lambda>doc. URL doc = url)) in
      case Entities_Find env at s q of
        Inl e \<Rightarrow> Inl (errgo_Mask (mgo_err e) no_pass)
      | Inr docs \<Rightarrow> Inr (filter (\<lambda>doc. matchURL (URL doc) url) docs))"

definition FindEntity :: "env \<Rightarrow> site \<Rightarrow> store \<Rightarrow> Reference \<Rightarrow> err + Entity" where
  "FindEntity env at s url =
     (if Series url = '''' \<or> Revision url = - 1
      then Inl (errgo_Newf ''entity id %q is not fully qualified'' [ArgRef url])
      else case FindEntities env at s url of
        Inl e \<Rightarrow> Inl (errgo_Mask e no_pass)
      | Inr found \<Rightarrow>
          (case found of
             [] \<Rightarrow> Inl (errgo_WithCausef ErrNotFound ''entity not found'' [])
           | e # _ \<Rightarrow> Inr e))"

definition insertEntity :: "env \<Rightarrow> store \<Rightarrow> Entity \<Rightarrow> err option \<times> store" where
  "insertEntity env s entity =
     (let readPerm = (if EUser entity \<noteq> '''' then [params_Everyone, EUser entity]
                      else everyonePerm);
          writePerm = (if EUser entity \<noteq> '''' then [EUser entity] else []);
          baseEntity = \<lparr>BURL = BaseURL entity, BUser = EUser entity, BName = EName entity,
                        Public = True, ACLs = \<lparr>Read = readPerm, Write = writePerm\<rparr>,
                        Promulgated = (PromulgatedURL entity \<noteq> None)\<rparr> in
      case BaseEntities_Insert env s baseEntity of (berr, s1) \<Rightarrow>
        if berr \<noteq> None \<and> \<not> mgo_IsDup berr
        then (Some (errgo_Mask (mgo_err (the berr)) no_pass), s1)
        else case Entities_Insert env s1 entity of (ierr, s2) \<Rightarrow>
          if mgo_IsDup ierr then (Some params_ErrDuplicateUpload, s2)
          else if ierr \<noteq> None then (Some (errgo_Mask (mgo_err (the ierr)) no_pass), s2)
          else case UpdateSearch env s2 (URL entity) of
            (Some e, s3) \<Rightarrow>
              (Some (errgo_Notef e ''cannot index %s to ElasticSearch'' [ArgRef (URL entity)]),
               snd (Entities_RemoveId env s3 (URL entity)))
          | (None, s3) \<Rightarrow> (None, s3))"

definition AddCharm :: "env \<Rightarrow> store \<Rightarrow> Meta \<Rightarrow> AddParams \<Rightarrow> err option \<times> store" where
  "AddCharm env s c p =
     (if Series (PURL p) = ''bundle''
      then (Some (errgo_Newf ''charm added with invalid id %v'' [ArgRef (PURL p)]), s)
      else
        let entity = \<lparr>URL = PURL p, BaseURL = baseURL (PURL p), EUser = User (PURL p),
               EName = Name (PURL p), ERevision = Revision (PURL p), ESeries = Series (PURL p),
               BlobHash = PBlobHash p, BlobName = PBlobName p, Size = PBlobSize p,
               UploadTime = Now env, CharmMeta = Some c, BundleData = None, BundleCharms = [],
               Contents = PContents p, PromulgatedURL = PPromulgatedURL p,
               PromulgatedRevision = PPromulgatedRevision p\<rparr> in
        case FindEntities env AtFindExisting s (baseURL (PURL p)) of
          Inl e \<Rightarrow> (Some (errgo_Notef e ''cannot check for existing entities'' []), s)
        | Inr existing \<Rightarrow>
            (case find (\<lambda>e. Series (URL e) = ''bundle'') existing of
               Some e \<Rightarrow>
                 (Some (errgo_Newf ''charm name duplicates bundle name %v'' [ArgRef (URL e)]), s)
             | None \<Rightarrow>
                 (case insertEntity env s entity of
                    (Some e, s') \<Rightarrow> (Some (errgo_Mask e (errgo_Is ErrDuplicateUpload)), s')
                  | (None, s') \<Rightarrow> (None, s'))))"

text \<open>
  \<^verbatim>\<open>bundleCharms\<close> of the store: the URL of every service's charm and its base URL,
  without duplicates (the order of the result is that of a Go map, so not fixed).
\<close>

fun bundleCharms_urls :: "env \<Rightarrow> (string \<times> string) list \<Rightarrow> err + Reference list" where
  "bundleCharms_urls env [] = Inr []"
| "bundleCharms_urls env ((name, charm) # services) =
     (case ParseReference env charm of
        Inl e \<Rightarrow> Inl (errgo_Mask e no_pass)
      | Inr url \<Rightarrow>
          (case bundleCharms_urls env services of
             Inl e \<Rightarrow> Inl e
           | Inr urls \<Rightarrow> Inr (url # baseURL url # urls)))"

definition bundleCharms :: "env \<Rightarrow> BundleData \<Rightarrow> err + Reference list" where
  "bundleCharms env data =
     (case bundleCharms_urls env (Services data) of
        Inl e \<Rightarrow> Inl e
      | Inr urls \<Rightarrow> Inr (remdups urls))"

definition AddBundle :: "env \<Rightarrow> store \<Rightarrow> BundleData \<Rightarrow> AddParams \<Rightarrow> err option \<times> store" where
  "AddBundle env s b p =
     (if Series (PURL p) \<noteq> ''bundle''
      then (Some (errgo_Newf ''bundle added with invalid id %v'' [ArgRef (PURL p)]), s)
      else case bundleCharms env b of
        Inl e \<Rightarrow> (Some (errgo_Mask e no_pass), s)
      | Inr urls \<Rightarrow>
        let entity = \<lparr>URL = PURL p, BaseURL = baseURL (PURL p), EUser = User (PURL p),
               EName = Name (PURL p), ERevision = Revision (PURL p), ESeries = Series (PURL p),
               BlobHash = PBlobHash p, BlobName = PBlobName p, Size = PBlobSize p,
               UploadTime = Now env, CharmMeta = None, BundleData = Some b, BundleCharms = urls,
               Contents = PContents p, PromulgatedURL = PPromulgatedURL p,
               PromulgatedRevision = PPromulgatedRevision p\<rparr> in
        case FindEntities env AtFindExisting s (baseURL (PURL p)) of
          Inl e \<Rightarrow> (Some (errgo_Notef e ''cannot check for existing entities'' []), s)
        | Inr existing \<Rightarrow>
            (case find (\<lambda>e. Series (URL e) \<noteq> ''bundle'') existing of
               Some e \<Rightarrow>
                 (Some (errgo_Newf ''bundle name duplicates charm name %s'' [ArgRef (URL e)]), s)
             | None \<Rightarrow>
                 (case insertEntity env s entity of
                    (Some e, s') \<Rightarrow> (Some (errgo_Mask e (errgo_Is ErrDuplicateUpload)), s')
                  | (None, s') \<Rightarrow> (None, s'))))"

definition BlobNameAndHash :: "env \<Rightarrow> store \<Rightarrow> Reference \<Rightarrow> err + string \<times> string" where
  "BlobNameAndHash env s eid =
     (case Entities_FindId_One env s eid of
        Inl e \<Rightarrow>
          (if e = MgoNotFound then Inl (errgo_WithCausef ErrNotFound ''entity not found'' [])
           else Inl (errgo_Notef (mgo_err e) ''cannot get %s'' [ArgRef eid]))
      | Inr entity \<Rightarrow> Inr (BlobName entity, BlobHash entity))"

definition findZipFile ::
  "env \<Rightarrow> string \<Rightarrow> int \<Rightarrow> (zip_File \<Rightarrow> bool) \<Rightarrow> ZipFile \<times> err option" where
  "findZipFile env blob sz isFile =
     (case zip_NewReader env blob sz of
        Inl e \<Rightarrow> (ZipFile_zero, Some (errgo_Notef e ''cannot read archive data'' []))
      | Inr files \<Rightarrow>
          (case find isFile files of
             Some f \<Rightarrow> NewZipFile env f
           | None \<Rightarrow> (ZipFile_zero, Some params_ErrNotFound)))"

text \<open>
  \<^verbatim>\<open>OpenCachedBlobFile\<close>. The result is the content of the file inside the archive, for
  the reader that the Go function returns.
\<close>

definition OpenCachedBlobFile ::
  "env \<Rightarrow> store \<Rightarrow> Entity \<Rightarrow> FileId \<Rightarrow> (zip_File \<Rightarrow> bool) \<Rightarrow> (err + string) \<times> store" where
  "OpenCachedBlobFile env s entity fileId isFile =
     (if BlobName entity = ''''
      then (Inl (errgo_New ''provided entity does not have required fields''), s)
      else
        let ok = (Contents entity fileId \<noteq> None);
            zipf0 = (case Contents entity fileId of Some z \<Rightarrow> z | None \<Rightarrow> ZipFile_zero) in
        if ok \<and> \<not> IsValid zipf0 then (Inl (errgo_WithCausef ErrNotFound '''' []), s)
        else case BlobStore_Open env s (BlobName entity) of
          (Inl e, s1) \<Rightarrow> (Inl (errgo_Notef e ''cannot open archive blob'' []), s1)
        | (Inr (blob, sz), s1) \<Rightarrow>
            let (zipf, ferr) = (if \<not> ok then findZipFile env blob sz isFile else (zipf0, None)) in
            if ferr \<noteq> None \<and> cause (the ferr) \<noteq> ErrNotFound
            then (Inl (errgo_Mask (the ferr) no_pass), s1)
            else case Entities_UpdateId env s1 (URL entity) fileId zipf of
              (Some e, s2) \<Rightarrow>
                (Inl (errgo_Notef (mgo_err e) ''cannot update %q'' [ArgRef (URL entity)]), s2)
            | (None, s2) \<Rightarrow>
                if \<not> IsValid zipf then (Inl (errgo_WithCausef ErrNotFound '''' []), s2)
                else case ZipFileReader env blob zipf of
                  Inl e \<Rightarrow> (Inl (errgo_Notef e ''cannot make zip file reader'' []), s2)
                | Inr r \<Rightarrow> (Inr r, s2))"

section \<open>The archive handlers (\<^verbatim>\<open>internal/v4/archive.go\<close>)\<close>

record Request =
  FormHash :: string
  ContentLength :: int
  Body :: string

record ArchiveUploadResponse =
  RespId :: "Reference option"

text \<open>
  \<^verbatim>\<open>jsonhttp.WriteJSON\<close>: the response is written, unless the writer fails. A handler's
  result is \<open>Inr\<close> of what it wrote when it returns \<^verbatim>\<open>nil\<close>, and \<open>Inl\<close> of its error.
\<close>

definition WriteJSON :: "env \<Rightarrow> 'a \<Rightarrow> err + 'a" where
  "WriteJSON env resp =
     (if fails env AtWriteResponse then Inl (io_failure ''cannot write response'') else Inr resp)"

definition verificationError :: "env \<Rightarrow> verify_error \<Rightarrow> err" where
  "verificationError env verr =
     (case verr of
        OtherError e \<Rightarrow> e
      | VerificationError errors \<Rightarrow>
          (let messages = sort errors in
           case json_Marshal env messages of
             Inl e \<Rightarrow> e
           | Inr encodedMessages \<Rightarrow> errgo_New encodedMessages))"

fun checkRelationsAreValid :: "(string \<times> Relation) list \<Rightarrow> err option" where
  "checkRelationsAreValid [] = None"
| "checkRelationsAreValid ((k, rel) # rels) =
     (if RelName rel = ''relation-name''
      then Some (errgo_Newf ''relation %s has almost certainly not been changed from the template''
                   [ArgStr (RelName rel)])
      else if Interface rel = ''interface-name''
      then Some (errgo_Newf
                   ''interface %s in relation %s has almost certainly not been changed from the template''
                   [ArgStr (Interface rel), ArgStr (RelName rel)])
      else checkRelationsAreValid rels)"

fun checkCharmIsValid_loop :: "(string \<times> Relation) list list \<Rightarrow> err option" where
  "checkCharmIsValid_loop [] = None"
| "checkCharmIsValid_loop (rels # rest) =
     (case checkRelationsAreValid rels of
        Some e \<Rightarrow> Some (errgo_Mask e no_pass)
      | None \<Rightarrow> checkCharmIsValid_loop rest)"

definition checkCharmIsValid :: "Meta \<Rightarrow> err option" where
  "checkCharmIsValid m = checkCharmIsValid_loop [Provides m, Requires m, Peers m]"

text \<open>
  \<^verbatim>\<open>Handler.bundleCharms\<close>: the first loop collects, for every id that parses and
  resolves, the resolved URL and the id as written.
\<close>

fun bundleCharms_resolve ::
  "env \<Rightarrow> store \<Rightarrow> string list \<Rightarrow> err + (Reference \<times> string) list" where
  "bundleCharms_resolve env s [] = Inr []"
| "bundleCharms_resolve env s (i # ids) =
     (case ParseReference env i of
        Inl e \<Rightarrow> bundleCharms_resolve env s ids
      | Inr url \<Rightarrow>
          (case resolveURL env s url of
             Inl e \<Rightarrow>
               (if cause e = ErrNotFound then bundleCharms_resolve env s ids else Inl e)
           | Inr url' \<Rightarrow>
               (case bundleCharms_resolve env s ids of
                  Inl e \<Rightarrow> Inl e
                | Inr rest \<Rightarrow> Inr ((url', i) # rest))))"

definition Handler_bundleCharms ::
  "env \<Rightarrow> store \<Rightarrow> string list \<Rightarrow> err + (string \<Rightarrow> CharmView option)" where
  "Handler_bundleCharms env s ids =
     (case bundleCharms_resolve env s ids of
        Inl e \<Rightarrow> Inl e
      | Inr urls \<Rightarrow>
          (case Entities_Find env AtFindBundleCharms s (\<lambda>doc. URL doc \<in> set (map fst urls)) of
             Inl e \<Rightarrow> Inl (mgo_err e)
           | Inr found \<Rightarrow>
               (let entityCharms = map_of (map (\<lambda>e. (URL e, entityCharm e)) (rev found)) in
                Inr (fold (\<lambda>(url, i) charms.
                            case entityCharms url of
                              Some ch \<Rightarrow> charms(i \<mapsto> ch)
                            | None \<Rightarrow> charms)
                       urls Map.empty))))"

definition addEntity ::
  "env \<Rightarrow> store \<Rightarrow> Reference \<Rightarrow> string \<Rightarrow> string \<Rightarrow> string \<Rightarrow> int \<Rightarrow> err option \<times> store" where
  "addEntity env s eid r blobName hash contentLength =
     (let p = \<lparr>PURL = eid, PBlobName = blobName, PBlobHash = hash, PBlobSize = contentLength,
                PContents = Map.empty, PPromulgatedURL = None, PPromulgatedRevision = 0\<rparr> in
      if Series eid = ''bundle'' then
        (case ReadBundleArchive env r contentLength of
           Inl e \<Rightarrow> (Some (errgo_Notef e ''cannot read bundle archive'' []), s)
         | Inr bundleData \<Rightarrow>
             (case Handler_bundleCharms env s (RequiredCharms env bundleData) of
                Inl e \<Rightarrow> (Some (errgo_Notef e ''cannot retrieve bundle charms'' []), s)
              | Inr charms \<Rightarrow>
                  (case VerifyWithCharms env bundleData charms of
                     Some verr \<Rightarrow>
                       (Some (errgo_Notef (verificationError env verr)
                                ''bundle verification failed'' []), s)
                   | None \<Rightarrow>
                       (case AddBundle env s bundleData p of
                          (Some e, s') \<Rightarrow>
                            (Some (errgo_Mask e (errgo_Is ErrDuplicateUpload)), s')
                        | (None, s') \<Rightarrow> (None, s')))))
      else
        (case ReadCharmArchive env r contentLength of
           Inl e \<Rightarrow> (Some (errgo_Notef e ''cannot read charm archive'' []), s)
         | Inr ch \<Rightarrow>
             (case checkCharmIsValid ch of
                Some e \<Rightarrow> (Some (errgo_Mask e no_pass), s)
              | None \<Rightarrow>
                  (case AddCharm env s ch p of
                     (Some e, s') \<Rightarrow> (Some (errgo_Mask e (errgo_Is ErrDuplicateUpload)), s')
                   | (None, s') \<Rightarrow> (None, s')))))"

text \<open>
  \<^verbatim>\<open>addBlobAndEntity\<close>. The deferred function that removes the blob is registered
  after the blob has been reopened, so it runs on the failure of \<^verbatim>\<open>addEntity\<close> only;
  the result of the removal is dropped.
\<close>

definition addBlobAndEntity ::
  "env \<Rightarrow> store \<Rightarrow> Reference \<Rightarrow> string \<Rightarrow> string \<Rightarrow> int \<Rightarrow> err option \<times> store" where
  "addBlobAndEntity env s eid body hash contentLength =
     (let name = NewObjectId env in
      case BlobStore_PutUnchallenged env s body name contentLength hash of
        (Some e, s1) \<Rightarrow> (Some (errgo_Notef e ''cannot put archive blob'' []), s1)
      | (None, s1) \<Rightarrow>
          (case BlobStore_Open env s1 name of
             (Inl e, s2) \<Rightarrow> (Some (errgo_Notef e ''cannot open newly created blob'' []), s2)
           | (Inr (r, sz), s2) \<Rightarrow>
               (case addEntity env s2 eid r name hash contentLength of
                  (Some e, s3) \<Rightarrow>
                    (Some (errgo_Mask e (errgo_Is ErrDuplicateUpload)),
                     snd (BlobStore_Remove env s3 name))
                | (None, s3) \<Rightarrow> (None, s3))))"

text \<open>
  \<^verbatim>\<open>latestRevisionInfo\<close> returns Go's triple: the id and the hash of the latest
  revision (\<^verbatim>\<open>nil\<close> and the empty string with an error), and the error.
\<close>

definition latestRevisionInfo ::
  "env \<Rightarrow> store \<Rightarrow> Reference \<Rightarrow> Reference option \<times> string \<times> err option" where
  "latestRevisionInfo env s eid =
     (case FindEntities env AtFindLatest s eid of
        Inl e \<Rightarrow> (None, '''', Some (errgo_Mask e no_pass))
      | Inr found \<Rightarrow>
          (case found of
             [] \<Rightarrow> (None, '''', Some params_ErrNotFound)
           | e0 # _ \<Rightarrow>
               (let latest = foldl (\<lambda>latest entity.
                                      if Revision (URL entity) > Revision (URL latest)
                                      then entity else latest) e0 found
                in (Some (URL latest), BlobHash latest, None))))"

text \<open>
  \<^verbatim>\<open>updateStatsArchiveUpload\<close> runs deferred, with the handler's id and its named
  result \<^verbatim>\<open>err\<close>. The handlers change nothing of the id but its revision, which
  this function overwrites, so the model passes the id of the request.
\<close>

definition updateStatsArchiveUpload :: "store \<Rightarrow> Reference \<Rightarrow> err option \<Rightarrow> store" where
  "updateStatsArchiveUpload s eid err =
     (let eid' = eid\<lparr>Revision := - 1\<rparr>;
          kind = (if err \<noteq> None then StatsArchiveFailedUpload else StatsArchiveUpload) in
      IncCounterAsync s (EntityStatsKey eid' kind))"

definition error_of :: "err + 'a \<Rightarrow> err option" where
  "error_of r = (case r of Inl e \<Rightarrow> Some e | Inr x \<Rightarrow> None)"

definition servePostArchive_body ::
  "env \<Rightarrow> store \<Rightarrow> Reference \<Rightarrow> Request \<Rightarrow> (err + ArchiveUploadResponse) \<times> store" where
  "servePostArchive_body env s eid req =
     (if Series eid = '''' then (Inl (badRequestf ''series not specified''), s)
      else if Revision eid \<noteq> - 1
      then (Inl (badRequestf ''revision specified, but should not be specified''), s)
      else
        let hash = FormHash req in
        if hash = '''' then (Inl (badRequestf ''hash parameter not specified''), s)
        else if ContentLength req = - 1
        then (Inl (badRequestf ''Content-Length not specified''), s)
        else case latestRevisionInfo env s eid of (oldId, oldHash, lerr) \<Rightarrow>
          if lerr \<noteq> None \<and> cause (the lerr) \<noteq> ErrNotFound
          then (Inl (errgo_Notef (the lerr) ''cannot get hash of latest revision'' []), s)
          else if oldHash = hash then (WriteJSON env \<lparr>RespId = oldId\<rparr>, s)
          else
            let eid' = eid\<lparr>Revision := (case oldId of
                                            Some old \<Rightarrow> int_wrap (Revision old + 1)
                                          | None \<Rightarrow> 0)\<rparr> in
            case addBlobAndEntity env s eid' (Body req) hash (ContentLength req) of
              (Some e, s') \<Rightarrow> (Inl (errgo_Mask e (errgo_Is ErrDuplicateUpload)), s')
            | (None, s') \<Rightarrow> (WriteJSON env \<lparr>RespId = Some eid'\<rparr>, s'))"

definition servePostArchive ::
  "env \<Rightarrow> store \<Rightarrow> Reference \<Rightarrow> Request \<Rightarrow> (err + ArchiveUploadResponse) \<times> store" where
  "servePostArchive env s eid req =
     (case servePostArchive_body env s eid req of
        (r, s') \<Rightarrow> (r, updateStatsArchiveUpload s' eid (error_of r)))"

definition servePutArchive_body ::
  "env \<Rightarrow> store \<Rightarrow> Reference \<Rightarrow> Request \<Rightarrow> (err + ArchiveUploadResponse) \<times> store" where
  "servePutArchive_body env s eid req =
     (if Series eid = '''' then (Inl (badRequestf ''series not specified''), s)
      else if Revision eid = - 1 then (Inl (badRequestf ''revision not specified''), s)
      else
        let hash = FormHash req in
        if hash = '''' then (Inl (badRequestf ''hash parameter not specified''), s)
        else if ContentLength req = - 1
        then (Inl (badRequestf ''Content-Length not specified''), s)
        else case addBlobAndEntity env s eid (Body req) hash (ContentLength req) of
          (Some e, s') \<Rightarrow> (Inl (errgo_Mask e (errgo_Is ErrDuplicateUpload)), s')
        | (None, s') \<Rightarrow> (WriteJSON env \<lparr>RespId = Some eid\<rparr>, s'))"

definition servePutArchive ::
  "env \<Rightarrow> store \<Rightarrow> Reference \<Rightarrow> Request \<Rightarrow> (err + ArchiveUploadResponse) \<times> store" where
  "servePutArchive env s eid req =
     (case servePutArchive_body env s eid req of
        (r, s') \<Rightarrow> (r, updateStatsArchiveUpload s' eid (error_of r)))"

definition serveDeleteArchive :: "env \<Rightarrow> store \<Rightarrow> Reference \<Rightarrow> err option \<times> store" where
  "serveDeleteArchive env s eid =
     (case BlobNameAndHash env s eid of
        Inl e \<Rightarrow> (Some (errgo_Mask e (errgo_Is ErrNotFound)), s)
      | Inr (blobName, h) \<Rightarrow>
          (case Entities_RemoveId env s eid of
             (Some e, s1) \<Rightarrow>
               (Some (errgo_Notef (mgo_err e) ''cannot remove %s'' [ArgRef eid]), s1)
           | (None, s1) \<Rightarrow>
               (case BlobStore_Remove env s1 blobName of
                  (Some e, s2) \<Rightarrow>
                    (Some (errgo_Notef e ''cannot remove blob %s'' [ArgStr blobName]), s2)
                | (None, s2) \<Rightarrow>
                    (None, IncCounterAsync s2 (EntityStatsKey eid StatsArchiveDelete)))))"

definition setArchiveCacheControl :: "bool \<Rightarrow> string" where
  "setArchiveCacheControl idFullySpecified =
     ''public, max-age='' @ (if \<not> idFullySpecified then ''300'' else ''31536000'')"

section \<open>The icon handler\<close>

definition svgNamespace :: string where
  "svgNamespace = ''http://www.w3.org/2000/svg''"

text \<open>
  The loop of \<^verbatim>\<open>ensureViewbox\<close> over the attributes (each a name, with its space and
  local part, and a value): \<open>None\<close> when a \<^verbatim>\<open>viewBox\<close> is found, else the last width
  and height.
\<close>

fun ensureViewbox_attrs ::
  "((string \<times> string) \<times> string) list \<Rightarrow> string \<Rightarrow> string \<Rightarrow> (string \<times> string) option" where
  "ensureViewbox_attrs [] width height = Some (width, height)"
| "ensureViewbox_attrs (((space, local), v) # attrs) width height =
     (if space \<noteq> '''' then ensureViewbox_attrs attrs width height
      else if local = ''width'' then ensureViewbox_attrs attrs v height
      else if local = ''height'' then ensureViewbox_attrs attrs width v
      else if local = ''viewBox'' then None
      else ensureViewbox_attrs attrs width height)"

fun ensureViewbox :: "Token \<Rightarrow> Token \<times> bool" where
  "ensureViewbox (OtherToken t) = (OtherToken t, False)"
| "ensureViewbox (StartElement space local attr) =
     (if space \<noteq> svgNamespace \<or> local \<noteq> ''svg'' then (StartElement space local attr, False)
      else case ensureViewbox_attrs attr '''' '''' of
        None \<Rightarrow> (StartElement space local attr, True)
      | Some (width, height) \<Rightarrow>
          if width = '''' \<or> height = '''' then (StartElement space local attr, True)
          else (StartElement space local
                  (attr @ [(('''', ''viewBox''), ''0 0 '' @ width @ '' '' @ height)]), True))"

fun processIcon_loop :: "bool \<Rightarrow> Token list \<Rightarrow> Token list" where
  "processIcon_loop ensured [] = []"
| "processIcon_loop ensured (tok # toks) =
     (if \<not> ensured
      then (case ensureViewbox tok of (tok', ensured') \<Rightarrow> tok' # processIcon_loop ensured' toks)
      else tok # processIcon_loop ensured toks)"

text \<open>
  \<^verbatim>\<open>processIcon\<close>: every token read is passed through \<^verbatim>\<open>ensureViewbox\<close> until
  that has found the \<^verbatim>\<open>svg\<close> element, and is then encoded. A decoding error ends
  the function with an error (the output written so far is not part of the result
  here); the encoding of decoded tokens is taken to succeed.
\<close>

definition processIcon :: "env \<Rightarrow> string \<Rightarrow> err + string" where
  "processIcon env r =
     (case xml_Tokens env r of
        (toks, Some e) \<Rightarrow> Inl \<lparr>cause = NoCause, msg = Prefixed (Text ''failed to read token'') (msg e)\<rparr>
      | (toks, None) \<Rightarrow> Inr (xml_Encode env (processIcon_loop False toks)))"

record IconResponse =
  ContentType :: string
  CacheControl :: string
  RBody :: string

definition isIconFile :: "env \<Rightarrow> zip_File \<Rightarrow> bool" where
  "isIconFile env f = (path_Clean env (FName f) = ''icon.svg'')"

definition serveIcon ::
  "env \<Rightarrow> store \<Rightarrow> Reference \<Rightarrow> bool \<Rightarrow> (err + IconResponse) \<times> store" where
  "serveIcon env s eid fullySpecified =
     (if Series eid = ''bundle''
      then (Inl (errgo_WithCausef ErrNotFound ''icons not supported for bundles'' []), s)
      else case FindEntity env AtFindOne s eid of
        Inl e \<Rightarrow> (Inl (errgo_NoteMask e ''cannot get icon'' (errgo_Is ErrNotFound)), s)
      | Inr entity \<Rightarrow>
          (case OpenCachedBlobFile env s entity FileIcon (isIconFile env) of
             (Inl e, s') \<Rightarrow>
               (if cause e \<noteq> ErrNotFound then (Inl (errgo_Mask e no_pass), s')
                else (Inr \<lparr>ContentType = ''image/svg+xml'',
                           CacheControl = setArchiveCacheControl fullySpecified,
                           RBody = defaultIcon env\<rparr>, s'))
           | (Inr r, s') \<Rightarrow>
               (case processIcon env r of
                  Inl e \<Rightarrow> (Inl (errgo_Mask e no_pass), s')
                | Inr out \<Rightarrow>
                    (Inr \<lparr>ContentType = ''image/svg+xml'',
                          CacheControl = setArchiveCacheControl fullySpecified,
                          RBody = out\<rparr>, s'))))"

section \<open>Revisions of an id\<close>

text \<open>
  The entities of a store for the user, name and series of an id: the rows among which
  the spec allocates revisions.
\<close>

definition family :: "store \<Rightarrow> Reference \<Rightarrow> Entity list" where
  "family s eid =
     filter (\<lambda>d. User (URL d) = User eid \<and> Name (URL d) = Name eid \<and> Series (URL d) = Series eid)
       (entities s)"

text \<open>
  The revision the spec allocates: the maximum of the existing revisions for the same
  user, name and series plus one, or 0 when there is none.
\<close>

definition next_revision :: "store \<Rightarrow> Reference \<Rightarrow> int" where
  "next_revision s eid =
     (if family s eid = [] then 0
      else Max (set (map (\<lambda>d. Revision (URL d)) (family s eid))) + 1)"

section \<open>A concrete store and environment\<close>

text \<open>
  A small store and an environment, on which the handlers are run: the user
  \<^verbatim>\<open>bob\<close> has uploaded revision 0 of the charm \<^verbatim>\<open>wordpress\<close> for the series
  \<^verbatim>\<open>trusty\<close> and revision 0 of the bundle \<^verbatim>\<open>stack\<close>. The archives hold no icon.
\<close>

definition ex_meta :: Meta where
  "ex_meta = \<lparr>Provides = [(''website'', \<lparr>RelName = ''website'', Interface = ''http''\<rparr>)],
              Requires = [], Peers = []\<rparr>"

definition ex_ref :: "string \<Rightarrow> string \<Rightarrow> int \<Rightarrow> Reference" where
  "ex_ref series name r = \<lparr>User = ''bob'', Name = name, Revision = r, Series = series\<rparr>"

definition ex_entity :: "Reference \<Rightarrow> string \<Rightarrow> string \<Rightarrow> Entity" where
  "ex_entity url blobName hash =
     \<lparr>URL = url, BaseURL = baseURL url, EUser = User url, EName = Name url,
      ERevision = Revision url, ESeries = Series url, BlobHash = hash, BlobName = blobName,
      Size = 3, UploadTime = 0, CharmMeta = None, BundleData = None, BundleCharms = [],
      Contents = Map.empty, PromulgatedURL = None, PromulgatedRevision = 0\<rparr>"

definition ex_base :: "string \<Rightarrow> BaseEntity" where
  "ex_base name =
     \<lparr>BURL = \<lparr>User = ''bob'', Name = name, Revision = - 1, Series = ''''\<rparr>, BUser = ''bob'',
      BName = name, Public = True,
      ACLs = \<lparr>Read = [''everyone'', ''bob''], Write = [''bob'']\<rparr>, Promulgated = False\<rparr>"

definition ex_store :: store where
  "ex_store =
     \<lparr>blobs = [''blob-0'' \<mapsto> ''old'', ''blob-1'' \<mapsto> ''stk''],
      entities = [ex_entity (ex_ref ''trusty'' ''wordpress'' 0) ''blob-0'' ''sha384:old'',
                  ex_entity (ex_ref ''bundle'' ''stack'' 0) ''blob-1'' ''sha384:stk''],
      base_entities = [ex_base ''wordpress'', ex_base ''stack''],
      indexed = [], counters = [], calls = []\<rparr>"

fun ex_json_items :: "string list \<Rightarrow> string" where
  "ex_json_items [] = ''''"
| "ex_json_items [x] = [CHR 0x22] @ x @ [CHR 0x22]"
| "ex_json_items (x # y # ys) = [CHR 0x22] @ x @ [CHR 0x22] @ '','' @ ex_json_items (y # ys)"

text \<open>The JSON encoding of a list of strings that need no escaping.\<close>

definition ex_json :: "string list \<Rightarrow> string" where
  "ex_json xs = ''['' @ ex_json_items xs @ '']''"

definition ex_bundle :: BundleData where
  "ex_bundle =
     \<lparr>Services = [(''blog'', ''wordpress''), (''db'', ''mysql''), (''cache'', ''memcached'')]\<rparr>"

text \<open>
  The environment, given which collaborator calls fail: a bundle is verified by looking
  for the charm of each service, and every id parses.
\<close>

definition ex_env :: "(site \<Rightarrow> bool) \<Rightarrow> env" where
  "ex_env f =
     \<lparr>NewObjectId = ''blob-2'', Now = 1, fails = f,
      SHA384 = (\<lambda>b. ''sha384:'' @ b),
      ReadCharmArchive = (\<lambda>b l. Inr ex_meta),
      ReadBundleArchive = (\<lambda>b l. Inr ex_bundle),
      RequiredCharms = (\<lambda>d. map snd (Services d)),
      VerifyWithCharms = (\<lambda>d charms.
        case filter (\<lambda>c. charms c = None) (map snd (Services d)) of
          [] \<Rightarrow> None
        | m # ms \<Rightarrow> Some (VerificationError (map (\<lambda>c. ''no charm '' @ c) (m # ms)))),
      ParseReference = (\<lambda>i. Inr \<lparr>User = ''bob'', Name = i, Revision = - 1, Series = ''''\<rparr>),
      resolveURL = (\<lambda>s url.
        case filter (\<lambda>e. Name (URL e) = Name url) (entities s) of
          [] \<Rightarrow> Inl (errgo_WithCausef ErrNotFound ''no matching charm or bundle for %q'' [ArgRef url])
        | e # es \<Rightarrow> Inr (URL e)),
      json_Marshal = (\<lambda>xs. Inr (ex_json xs)),
      zip_NewReader = (\<lambda>b l. Inr [\<lparr>FName = ''metadata.yaml'', FIsDir = False\<rparr>,
                                    \<lparr>FName = ''README.md'', FIsDir = False\<rparr>]),
      NewZipFile = (\<lambda>f. (\<lparr>IsValid = True, Offset = 30, CompressedSize = 3,
                            UncompressedSize = 3, Method = 0\<rparr>, None)),
      ZipFileReader = (\<lambda>b z. Inr b),
      path_Clean = (\<lambda>p. p),
      xml_Tokens = (\<lambda>b. ([], None)),
      xml_Encode = (\<lambda>ts. ''''),
      defaultIcon = ''<svg/>''\<rparr>"

definition no_faults :: "site \<Rightarrow> bool" where
  "no_faults at = False"

definition ex_request :: "string \<Rightarrow> Request" where
  "ex_request body = \<lparr>FormHash = ''sha384:'' @ body, ContentLength = int (length body), Body = body\<rparr>"

text \<open>
  The store after the PUT of the revision 9223372036854775807 of \<^verbatim>\<open>wordpress\<close>, the
  largest value of a Go \<^verbatim>\<open>int\<close>.
\<close>

definition ex_store_max :: store where
  "ex_store_max =
     snd (servePutArchive (ex_env no_faults) ex_store
            (ex_ref ''trusty'' ''wordpress'' 9223372036854775807) (ex_request ''max''))"

section \<open>Effects of the store operations\<close>

lemmas prim_defs = BlobStore_PutUnchallenged_def BlobStore_Open_def BlobStore_Remove_def
  Entities_Find_def Entities_FindId_One_def Entities_Insert_def Entities_RemoveId_def
  Entities_UpdateId_def BaseEntities_Insert_def UpdateSearch_def IncCounterAsync_def

lemma filter_absent: "k \<notin> f ` set xs \<Longrightarrow> filter (\<lambda>d. f d \<noteq> k) xs = xs"
  by (induction xs) auto

lemma insertEntity_frame:
  "insertEntity env s e = (r, s') \<Longrightarrow> counters s' = counters s \<and> blobs s' = blobs s"
  by (auto simp add: insertEntity_def Let_def prim_defs split: prod.splits option.splits if_splits)

lemma insertEntity_fail:
  "insertEntity env s e = (Some x, s') \<Longrightarrow> \<not> fails env AtRemoveEntity \<Longrightarrow>
   entities s' = entities s"
  by (auto simp add: insertEntity_def Let_def prim_defs mgo_IsDup_def filter_absent
      split: prod.splits option.splits if_splits)

lemma insertEntity_ok:
  "insertEntity env s e = (None, s') \<Longrightarrow> entities s' = entities s @ [e]"
  by (auto simp add: insertEntity_def Let_def prim_defs mgo_IsDup_def
      split: prod.splits option.splits if_splits)

lemma insertEntity_base:
  "insertEntity env s e = (r, s') \<Longrightarrow> b \<in> set (base_entities s') \<Longrightarrow>
   b \<in> set (base_entities s) \<or> (Public b \<and> params_Everyone \<in> set (Read (ACLs b)))"
  by (auto simp add: insertEntity_def Let_def prim_defs mgo_IsDup_def everyonePerm_def
      split: prod.splits option.splits if_splits)

lemma AddCharm_frame:
  "AddCharm env s c p = (r, s') \<Longrightarrow> counters s' = counters s \<and> blobs s' = blobs s"
  by (auto simp add: AddCharm_def Let_def split: prod.splits option.splits if_splits sum.splits
      dest: insertEntity_frame)

lemma AddCharm_fail:
  "AddCharm env s c p = (Some x, s') \<Longrightarrow> \<not> fails env AtRemoveEntity \<Longrightarrow>
   entities s' = entities s"
  by (auto simp add: AddCharm_def Let_def split: prod.splits option.splits if_splits sum.splits
      dest: insertEntity_fail)

lemma AddCharm_ok:
  "AddCharm env s c p = (None, s') \<Longrightarrow>
   \<exists>e. entities s' = entities s @ [e] \<and> URL e = PURL p \<and> BlobName e = PBlobName p
     \<and> BlobHash e = PBlobHash p \<and> ERevision e = Revision (PURL p)"
  by (auto simp add: AddCharm_def Let_def split: prod.splits option.splits if_splits sum.splits
      dest!: insertEntity_ok)

lemma AddCharm_base:
  "AddCharm env s c p = (r, s') \<Longrightarrow> b \<in> set (base_entities s') \<Longrightarrow>
   b \<in> set (base_entities s) \<or> (Public b \<and> params_Everyone \<in> set (Read (ACLs b)))"
  by (auto simp add: AddCharm_def Let_def split: prod.splits option.splits if_splits sum.splits
      dest: insertEntity_base)

lemma AddBundle_frame:
  "AddBundle env s c p = (r, s') \<Longrightarrow> counters s' = counters s \<and> blobs s' = blobs s"
  by (auto simp add: AddBundle_def Let_def split: prod.splits option.splits if_splits sum.splits
      dest: insertEntity_frame)

lemma AddBundle_fail:
  "AddBundle env s c p = (Some x, s') \<Longrightarrow> \<not> fails env AtRemoveEntity \<Longrightarrow>
   entities s' = entities s"
  by (auto simp add: AddBundle_def Let_def split: prod.splits option.splits if_splits sum.splits
      dest: insertEntity_fail)

lemma AddBundle_ok:
  "AddBundle env s c p = (None, s') \<Longrightarrow>
   \<exists>e. entities s' = entities s @ [e] \<and> URL e = PURL p \<and> BlobName e = PBlobName p
     \<and> BlobHash e = PBlobHash p \<and> ERevision e = Revision (PURL p)"
  by (auto simp add: AddBundle_def Let_def split: prod.splits option.splits if_splits sum.splits
      dest!: insertEntity_ok)

lemma AddBundle_base:
  "AddBundle env s c p = (r, s') \<Longrightarrow> b \<in> set (base_entities s') \<Longrightarrow>
   b \<in> set (base_entities s) \<or> (Public b \<and> params_Everyone \<in> set (Read (ACLs b)))"
  by (auto simp add: AddBundle_def Let_def split: prod.splits option.splits if_splits sum.splits
      dest: insertEntity_base)


lemma insertEntity_search:
  "insertEntity env s e = (Some x, s') \<Longrightarrow> calls s' = calls s @ cs \<Longrightarrow>
   SearchUpdate u \<in> set cs \<Longrightarrow>
   cs = [BaseInsert (BaseURL e), EntityInsert (URL e), SearchUpdate (URL e), EntityRemove (URL e)]
   \<and> x = errgo_Notef (io_failure ''search index failure'')
             ''cannot index %s to ElasticSearch'' [ArgRef (URL e)]"
  by (auto simp add: insertEntity_def Let_def prim_defs mgo_IsDup_def
      split: prod.splits option.splits if_splits)

lemma AddCharm_search:
  "AddCharm env s c p = (Some x, s') \<Longrightarrow> calls s' = calls s @ cs \<Longrightarrow>
   SearchUpdate u \<in> set cs \<Longrightarrow>
   cs = [BaseInsert (baseURL (PURL p)), EntityInsert (PURL p), SearchUpdate (PURL p),
         EntityRemove (PURL p)]
   \<and> msg x = Prefixed (Fmt ''cannot index %s to ElasticSearch'' [ArgRef (PURL p)])
               (Text ''search index failure'')"
  by (auto simp add: AddCharm_def Let_def errgo_Mask_def errgo_Notef_def io_failure_def
      split: prod.splits option.splits if_splits sum.splits
      dest!: insertEntity_search)

lemma AddBundle_search:
  "AddBundle env s c p = (Some x, s') \<Longrightarrow> calls s' = calls s @ cs \<Longrightarrow>
   SearchUpdate u \<in> set cs \<Longrightarrow>
   cs = [BaseInsert (baseURL (PURL p)), EntityInsert (PURL p), SearchUpdate (PURL p),
         EntityRemove (PURL p)]
   \<and> msg x = Prefixed (Fmt ''cannot index %s to ElasticSearch'' [ArgRef (PURL p)])
               (Text ''search index failure'')"
  by (auto simp add: AddBundle_def Let_def errgo_Mask_def errgo_Notef_def io_failure_def
      split: prod.splits option.splits if_splits sum.splits
      dest!: insertEntity_search)

lemma addEntity_frame:
  "addEntity env s eid r n h l = (x, s') \<Longrightarrow> counters s' = counters s \<and> blobs s' = blobs s"
  by (auto simp add: addEntity_def Let_def split: prod.splits option.splits if_splits sum.splits
      dest: AddCharm_frame AddBundle_frame)

lemma addEntity_fail:
  "addEntity env s eid r n h l = (Some x, s') \<Longrightarrow> \<not> fails env AtRemoveEntity \<Longrightarrow>
   entities s' = entities s"
  by (auto simp add: addEntity_def Let_def split: prod.splits option.splits if_splits sum.splits
      dest: AddCharm_fail AddBundle_fail)

lemma addEntity_ok:
  "addEntity env s eid r n h l = (None, s') \<Longrightarrow>
   \<exists>e. entities s' = entities s @ [e] \<and> URL e = eid \<and> BlobName e = n
     \<and> BlobHash e = h \<and> ERevision e = Revision eid"
  by (auto simp add: addEntity_def Let_def split: prod.splits option.splits if_splits sum.splits
      dest!: AddCharm_ok AddBundle_ok)

lemma addEntity_base:
  "addEntity env s eid r n h l = (x, s') \<Longrightarrow> b \<in> set (base_entities s') \<Longrightarrow>
   b \<in> set (base_entities s) \<or> (Public b \<and> params_Everyone \<in> set (Read (ACLs b)))"
  by (auto simp add: addEntity_def Let_def split: prod.splits option.splits if_splits sum.splits
      dest: AddCharm_base AddBundle_base)

lemma addEntity_search:
  "addEntity env s eid r n h l = (Some x, s') \<Longrightarrow> calls s' = calls s @ cs \<Longrightarrow>
   SearchUpdate u \<in> set cs \<Longrightarrow>
   cs = [BaseInsert (baseURL eid), EntityInsert eid, SearchUpdate eid, EntityRemove eid]
   \<and> msg x = Prefixed (Fmt ''cannot index %s to ElasticSearch'' [ArgRef eid])
               (Text ''search index failure'')"
  by (auto simp add: addEntity_def Let_def errgo_Mask_def
      split: prod.splits option.splits if_splits sum.splits
      dest!: AddCharm_search AddBundle_search)


lemma addBlobAndEntity_frame:
  "addBlobAndEntity env s eid body h l = (x, s') \<Longrightarrow> counters s' = counters s"
  by (auto simp add: addBlobAndEntity_def Let_def prim_defs
      split: prod.splits option.splits if_splits sum.splits
      dest: addEntity_frame)

lemma addBlobAndEntity_base:
  "addBlobAndEntity env s eid body h l = (x, s') \<Longrightarrow> b \<in> set (base_entities s') \<Longrightarrow>
   b \<in> set (base_entities s) \<or> (Public b \<and> params_Everyone \<in> set (Read (ACLs b)))"
  by (auto simp add: addBlobAndEntity_def Let_def prim_defs
      split: prod.splits option.splits if_splits sum.splits
      dest: addEntity_base)

lemma servePostArchive_body_counters:
  "servePostArchive_body env s eid req = (r, s') \<Longrightarrow> counters s' = counters s"
  by (auto simp add: servePostArchive_body_def Let_def
      split: prod.splits option.splits if_splits sum.splits
      dest: addBlobAndEntity_frame)

lemma servePutArchive_body_counters:
  "servePutArchive_body env s eid req = (r, s') \<Longrightarrow> counters s' = counters s"
  by (auto simp add: servePutArchive_body_def Let_def
      split: prod.splits option.splits if_splits sum.splits
      dest: addBlobAndEntity_frame)

section \<open>Upload counters\<close>

text \<open>
  C9: every POST and every PUT of an archive, whether it succeeds or fails, requests
  exactly one counter increment: the counters after the handler are those before it
  followed by one key, made of the request's id with the revision cleared (the series is
  kept: the spec's "base identity" is user, name and series) and of the kind
  \<^verbatim>\<open>archive-upload\<close> when the handler returned no error, \<^verbatim>\<open>archive-failed-upload\<close>
  otherwise.
\<close>

theorem upload_counter:
  "counters (snd (servePostArchive env s eid req)) =
     counters s @ [EntityStatsKey (eid\<lparr>Revision := - 1\<rparr>)
        (if isl (fst (servePostArchive env s eid req)) then StatsArchiveFailedUpload
         else StatsArchiveUpload)]
   \<and> counters (snd (servePutArchive env s eid req)) =
     counters s @ [EntityStatsKey (eid\<lparr>Revision := - 1\<rparr>)
        (if isl (fst (servePutArchive env s eid req)) then StatsArchiveFailedUpload
         else StatsArchiveUpload)]"
proof -
  obtain r s' where b: "servePostArchive_body env s eid req = (r, s')"
    by (cases "servePostArchive_body env s eid req")
  obtain r2 s2 where b2: "servePutArchive_body env s eid req = (r2, s2)"
    by (cases "servePutArchive_body env s eid req")
  have "counters s' = counters s" using b by (rule servePostArchive_body_counters)
  moreover have "counters s2 = counters s" using b2 by (rule servePutArchive_body_counters)
  ultimately show ?thesis
    by (cases r; cases r2)
       (simp_all add: servePostArchive_def servePutArchive_def b b2 updateStatsArchiveUpload_def
          IncCounterAsync_def error_of_def Let_def)
qed

section \<open>Storage calls of the store operations\<close>

lemmas ex_defs = ex_env_def ex_store_def ex_ref_def ex_entity_def ex_base_def ex_meta_def
  ex_bundle_def ex_json_def no_faults_def ex_request_def

lemmas model_defs = addBlobAndEntity_def addEntity_def AddCharm_def AddBundle_def insertEntity_def
  FindEntities_def FindEntity_def checkCharmIsValid_def baseURL_def matchURL_def
  errgo_Mask_def errgo_Notef_def errgo_Newf_def errgo_New_def errgo_WithCausef_def errgo_Is_def
  no_pass_def io_failure_def mgo_IsDup_def everyonePerm_def params_Everyone_def
  params_ErrNotFound_def params_ErrDuplicateUpload_def

lemma insertEntity_calls:
  "insertEntity env s e = (x, s') \<Longrightarrow> \<exists>cs. calls s' = calls s @ cs"
  by (auto simp add: insertEntity_def Let_def prim_defs
      split: prod.splits option.splits if_splits)

lemma AddCharm_calls:
  "AddCharm env s c p = (x, s') \<Longrightarrow> \<exists>cs. calls s' = calls s @ cs"
  by (auto simp add: AddCharm_def Let_def split: prod.splits option.splits if_splits sum.splits
      dest: insertEntity_calls)

lemma AddBundle_calls:
  "AddBundle env s c p = (x, s') \<Longrightarrow> \<exists>cs. calls s' = calls s @ cs"
  by (auto simp add: AddBundle_def Let_def split: prod.splits option.splits if_splits sum.splits
      dest: insertEntity_calls)

lemma addEntity_calls:
  "addEntity env s eid r n h l = (x, s') \<Longrightarrow> \<exists>cs. calls s' = calls s @ cs"
  by (auto simp add: addEntity_def Let_def split: prod.splits option.splits if_splits sum.splits
      dest: AddCharm_calls AddBundle_calls)

lemma servePostArchive_body_base:
  "servePostArchive_body env s eid req = (r, s') \<Longrightarrow> b \<in> set (base_entities s') \<Longrightarrow>
   b \<in> set (base_entities s) \<or> (Public b \<and> params_Everyone \<in> set (Read (ACLs b)))"
  by (auto simp add: servePostArchive_body_def Let_def
      split: prod.splits option.splits if_splits sum.splits
      dest: addBlobAndEntity_base)

lemma servePutArchive_body_base:
  "servePutArchive_body env s eid req = (r, s') \<Longrightarrow> b \<in> set (base_entities s') \<Longrightarrow>
   b \<in> set (base_entities s) \<or> (Public b \<and> params_Everyone \<in> set (Read (ACLs b)))"
  by (auto simp add: servePutArchive_body_def Let_def
      split: prod.splits option.splits if_splits sum.splits
      dest: addBlobAndEntity_base)

section \<open>Rollback of a failed upload\<close>

lemma servePutArchive_failed:
  assumes "Series eid \<noteq> ''''" "Revision eid \<noteq> - 1" "FormHash req \<noteq> ''''"
    "ContentLength req \<noteq> - 1"
    and "addBlobAndEntity env s eid (Body req) (FormHash req) (ContentLength req) = (Some e, s')"
  shows "servePutArchive env s eid req =
           (Inl (errgo_Mask e (errgo_Is ErrDuplicateUpload)),
            s'\<lparr>counters := counters s' @
                  [EntityStatsKey (eid\<lparr>Revision := - 1\<rparr>) StatsArchiveFailedUpload]\<rparr>)"
  using assms
  by (simp add: servePutArchive_def servePutArchive_body_def error_of_def
      updateStatsArchiveUpload_def IncCounterAsync_def Let_def)

lemma servePostArchive_failed:
  assumes "Series id0 \<noteq> ''''" "Revision id0 = - 1" "FormHash req \<noteq> ''''"
    "ContentLength req \<noteq> - 1"
    and "latestRevisionInfo env s id0 = (oldId, oldHash, lerr)"
    and "lerr = None \<or> cause (the lerr) = ErrNotFound"
    and "oldHash \<noteq> FormHash req"
    and "eid = id0\<lparr>Revision := (case oldId of
                                    Some old \<Rightarrow> int_wrap (Revision old + 1)
                                  | None \<Rightarrow> 0)\<rparr>"
    and "addBlobAndEntity env s eid (Body req) (FormHash req) (ContentLength req) = (Some e, s')"
  shows "servePostArchive env s id0 req =
           (Inl (errgo_Mask e (errgo_Is ErrDuplicateUpload)),
            s'\<lparr>counters := counters s' @
                  [EntityStatsKey (id0\<lparr>Revision := - 1\<rparr>) StatsArchiveFailedUpload]\<rparr>)"
  using assms
  by (auto simp add: servePostArchive_def servePostArchive_body_def error_of_def
      updateStatsArchiveUpload_def IncCounterAsync_def Let_def)

text \<open>
  An upload that fails after its blob has been written and reopened leaves no trace in
  the blob store and in the entities collection. POST and PUT both upload through
  \<^verbatim>\<open>addBlobAndEntity\<close>, and the stages after the reopening are: the archive cannot be
  read, the charm or the bundle is not valid, the entity is a duplicate, the search index
  fails after the entity has been inserted. Provided the two removals themselves succeed
  (the code drops the error of the blob removal and logs that of the entity removal),
  after the failure no blob is stored under the fresh name, no entity has that blob name,
  the blobs and the entities are those before the upload, and the last storage call is
  the removal of the blob. When the search index was called, the storage calls are
  exactly: put and open of the blob, insert of the base entity and of the entity, the
  search update, then the compensating removal of the entity and the removal of the
  blob; and the error returned carries the message of the indexing failure. A PUT, and a
  POST that has chosen the id's revision, return that error (masked) and leave the store
  of the failed upload, with the \<^verbatim>\<open>archive-failed-upload\<close> counter key added.
\<close>

lemma addBlobAndEntity_rollback:
  assumes put: "fst (BlobStore_PutUnchallenged env s body (NewObjectId env) contentLength hash) = None"
    and opn: "\<not> fails env AtOpenBlob"
    and fresh: "\<forall>d\<in>set (entities s). BlobName d \<noteq> NewObjectId env"
    and fail: "addBlobAndEntity env s eid body hash contentLength = (Some e, s')"
    and cleanup: "\<not> fails env AtRemoveBlob" "\<not> fails env AtRemoveEntity"
  shows "blobs s' (NewObjectId env) = None
       \<and> (\<forall>d\<in>set (entities s'). BlobName d \<noteq> NewObjectId env)
       \<and> blobs s' = blobs s \<and> entities s' = entities s
       \<and> last (calls s') = BlobRemove (NewObjectId env)
       \<and> (\<forall>cs. calls s' = calls s @ cs \<and> SearchUpdate eid \<in> set cs \<longrightarrow>
             cs = [BlobPut (NewObjectId env), BlobOpen (NewObjectId env),
                   BaseInsert (baseURL eid), EntityInsert eid, SearchUpdate eid,
                   EntityRemove eid, BlobRemove (NewObjectId env)]
             \<and> msg e = Prefixed (Fmt ''cannot index %s to ElasticSearch'' [ArgRef eid])
                         (Text ''search index failure''))
       \<and> (\<forall>req. Body req = body \<and> FormHash req = hash \<and> ContentLength req = contentLength
             \<and> Series eid \<noteq> '''' \<and> Revision eid \<noteq> - 1 \<and> hash \<noteq> '''' \<and> contentLength \<noteq> - 1 \<longrightarrow>
             servePutArchive env s eid req =
               (Inl (errgo_Mask e (errgo_Is ErrDuplicateUpload)),
                s'\<lparr>counters := counters s' @
                      [EntityStatsKey (eid\<lparr>Revision := - 1\<rparr>) StatsArchiveFailedUpload]\<rparr>))
       \<and> (\<forall>req id0 oldId oldHash lerr.
             Body req = body \<and> FormHash req = hash \<and> ContentLength req = contentLength
             \<and> Series id0 \<noteq> '''' \<and> Revision id0 = - 1 \<and> hash \<noteq> '''' \<and> contentLength \<noteq> - 1
             \<and> latestRevisionInfo env s id0 = (oldId, oldHash, lerr)
             \<and> (lerr = None \<or> cause (the lerr) = ErrNotFound) \<and> oldHash \<noteq> hash
             \<and> eid = id0\<lparr>Revision := (case oldId of
                                          Some old \<Rightarrow> int_wrap (Revision old + 1)
                                        | None \<Rightarrow> 0)\<rparr> \<longrightarrow>
             servePostArchive env s id0 req =
               (Inl (errgo_Mask e (errgo_Is ErrDuplicateUpload)),
                s'\<lparr>counters := counters s' @
                      [EntityStatsKey (id0\<lparr>Revision := - 1\<rparr>) StatsArchiveFailedUpload]\<rparr>))"
proof -
  define n where "n = NewObjectId env"
  define s1 where "s1 = s\<lparr>calls := calls s @ [BlobPut n], blobs := (blobs s)(n \<mapsto> body)\<rparr>"
  define s2 where "s2 = s1\<lparr>calls := calls s1 @ [BlobOpen n]\<rparr>"
  have absent: "blobs s n = None"
    using put by (auto simp: BlobStore_PutUnchallenged_def Let_def n_def split: if_splits)
  have p: "BlobStore_PutUnchallenged env s body n contentLength hash = (None, s1)"
    using put by (auto simp: BlobStore_PutUnchallenged_def Let_def n_def s1_def split: if_splits)
  have o: "BlobStore_Open env s1 n = (Inr (body, int (length body)), s2)"
    using opn by (simp add: BlobStore_Open_def Let_def s1_def s2_def)
  obtain x s3 where a: "addEntity env s2 eid body n hash contentLength = (x, s3)"
    by (cases "addEntity env s2 eid body n hash contentLength")
  from fail p o a obtain y where x: "x = Some y"
    and e: "e = errgo_Mask y (errgo_Is ErrDuplicateUpload)"
    and s': "s' = snd (BlobStore_Remove env s3 n)"
    by (auto simp: addBlobAndEntity_def Let_def n_def[symmetric] split: option.splits)
  have s'_eq: "s' = s3\<lparr>calls := calls s3 @ [BlobRemove n], blobs := (blobs s3)(n := None)\<rparr>"
    using cleanup(1) by (simp add: s' BlobStore_Remove_def Let_def)
  have fr: "blobs s3 = blobs s2" using addEntity_frame[OF a] by simp
  have en: "entities s3 = entities s2" using addEntity_fail[OF a[unfolded x] cleanup(2)] .
  have b: "blobs s' = blobs s"
    using absent by (auto simp: s'_eq fr s2_def s1_def)
  have en': "entities s' = entities s"
    by (simp add: s'_eq en s2_def s1_def)
  obtain cs3 where c3: "calls s3 = calls s2 @ cs3" using addEntity_calls[OF a] by blast
  have search: "cs = [BlobPut n, BlobOpen n, BaseInsert (baseURL eid), EntityInsert eid,
                   SearchUpdate eid, EntityRemove eid, BlobRemove n]
             \<and> msg e = Prefixed (Fmt ''cannot index %s to ElasticSearch'' [ArgRef eid])
                         (Text ''search index failure'')"
    if cs: "calls s' = calls s @ cs" and m: "SearchUpdate eid \<in> set cs" for cs
  proof -
    have cs_eq: "cs = [BlobPut n, BlobOpen n] @ cs3 @ [BlobRemove n]"
      using cs by (simp add: s'_eq c3 s2_def s1_def)
    then have "SearchUpdate eid \<in> set cs3" using m by auto
    from addEntity_search[OF a[unfolded x] c3 this]
    show ?thesis by (simp add: cs_eq e errgo_Mask_def)
  qed
  have store: "blobs s' (NewObjectId env) = None
       \<and> (\<forall>d\<in>set (entities s'). BlobName d \<noteq> NewObjectId env)
       \<and> blobs s' = blobs s \<and> entities s' = entities s
       \<and> last (calls s') = BlobRemove (NewObjectId env)
       \<and> (\<forall>cs. calls s' = calls s @ cs \<and> SearchUpdate eid \<in> set cs \<longrightarrow>
             cs = [BlobPut (NewObjectId env), BlobOpen (NewObjectId env),
                   BaseInsert (baseURL eid), EntityInsert eid, SearchUpdate eid,
                   EntityRemove eid, BlobRemove (NewObjectId env)]
             \<and> msg e = Prefixed (Fmt ''cannot index %s to ElasticSearch'' [ArgRef eid])
                         (Text ''search index failure''))"
    using b en' fresh absent search by (simp add: n_def[symmetric] s'_eq)
  have putH: "servePutArchive env s eid req =
               (Inl (errgo_Mask e (errgo_Is ErrDuplicateUpload)),
                s'\<lparr>counters := counters s' @
                      [EntityStatsKey (eid\<lparr>Revision := - 1\<rparr>) StatsArchiveFailedUpload]\<rparr>)"
    if "Body req = body \<and> FormHash req = hash \<and> ContentLength req = contentLength
             \<and> Series eid \<noteq> '''' \<and> Revision eid \<noteq> - 1 \<and> hash \<noteq> '''' \<and> contentLength \<noteq> - 1"
    for req
    using that fail by (intro servePutArchive_failed) auto
  have postH: "servePostArchive env s id0 req =
               (Inl (errgo_Mask e (errgo_Is ErrDuplicateUpload)),
                s'\<lparr>counters := counters s' @
                      [EntityStatsKey (id0\<lparr>Revision := - 1\<rparr>) StatsArchiveFailedUpload]\<rparr>)"
    if "Body req = body \<and> FormHash req = hash \<and> ContentLength req = contentLength
             \<and> Series id0 \<noteq> '''' \<and> Revision id0 = - 1 \<and> hash \<noteq> '''' \<and> contentLength \<noteq> - 1
             \<and> latestRevisionInfo env s id0 = (oldId, oldHash, lerr)
             \<and> (lerr = None \<or> cause (the lerr) = ErrNotFound) \<and> oldHash \<noteq> hash
             \<and> eid = id0\<lparr>Revision := (case oldId of
                                          Some old \<Rightarrow> int_wrap (Revision old + 1)
                                        | None \<Rightarrow> 0)\<rparr>"
    for req id0 oldId oldHash lerr
    using that fail
    by (intro servePostArchive_failed[where oldId = oldId and oldHash = oldHash and lerr = lerr
          and eid = eid]) auto
  from store putH postH show ?thesis by blast
qed

lemma addBlobAndEntity_rollback_example:
  "fst (addBlobAndEntity (ex_env (\<lambda>at. at = AtUpdateSearch)) ex_store
           (ex_ref ''trusty'' ''wordpress'' 1) ''new'' ''sha384:new'' 3) \<noteq> None
   \<and> blobs (snd (addBlobAndEntity (ex_env (\<lambda>at. at = AtUpdateSearch)) ex_store
           (ex_ref ''trusty'' ''wordpress'' 1) ''new'' ''sha384:new'' 3)) ''blob-2'' = None
   \<and> entities (snd (addBlobAndEntity (ex_env (\<lambda>at. at = AtUpdateSearch)) ex_store
           (ex_ref ''trusty'' ''wordpress'' 1) ''new'' ''sha384:new'' 3)) = entities ex_store
   \<and> calls (snd (addBlobAndEntity (ex_env (\<lambda>at. at = AtUpdateSearch)) ex_store
           (ex_ref ''trusty'' ''wordpress'' 1) ''new'' ''sha384:new'' 3)) =
       [BlobPut ''blob-2'', BlobOpen ''blob-2'',
        BaseInsert (baseURL (ex_ref ''trusty'' ''wordpress'' 1)),
        EntityInsert (ex_ref ''trusty'' ''wordpress'' 1),
        SearchUpdate (ex_ref ''trusty'' ''wordpress'' 1),
        EntityRemove (ex_ref ''trusty'' ''wordpress'' 1), BlobRemove ''blob-2'']
   \<and> msg (the (fst (addBlobAndEntity (ex_env (\<lambda>at. at = AtUpdateSearch)) ex_store
           (ex_ref ''trusty'' ''wordpress'' 1) ''new'' ''sha384:new'' 3))) =
       Prefixed (Fmt ''cannot index %s to ElasticSearch'' [ArgRef (ex_ref ''trusty'' ''wordpress'' 1)])
         (Text ''search index failure'')
   \<and> isl (fst (servePutArchive (ex_env (\<lambda>at. at = AtUpdateSearch)) ex_store
           (ex_ref ''trusty'' ''wordpress'' 1) (ex_request ''new'')))
   \<and> entities (snd (servePutArchive (ex_env (\<lambda>at. at = AtUpdateSearch)) ex_store
           (ex_ref ''trusty'' ''wordpress'' 1) (ex_request ''new''))) = entities ex_store
   \<and> blobs (snd (servePutArchive (ex_env (\<lambda>at. at = AtUpdateSearch)) ex_store
           (ex_ref ''trusty'' ''wordpress'' 1) (ex_request ''new''))) = blobs ex_store
   \<and> isl (fst (servePostArchive (ex_env (\<lambda>at. at = AtUpdateSearch)) ex_store
           (ex_ref ''trusty'' ''wordpress'' (- 1)) (ex_request ''new'')))
   \<and> entities (snd (servePostArchive (ex_env (\<lambda>at. at = AtUpdateSearch)) ex_store
           (ex_ref ''trusty'' ''wordpress'' (- 1)) (ex_request ''new''))) = entities ex_store
   \<and> blobs (snd (servePostArchive (ex_env (\<lambda>at. at = AtUpdateSearch)) ex_store
           (ex_ref ''trusty'' ''wordpress'' (- 1)) (ex_request ''new''))) = blobs ex_store"
proof -
  let ?env = "ex_env (\<lambda>at. at = AtUpdateSearch)"
  let ?id = "ex_ref ''trusty'' ''wordpress'' 1"
  let ?pid = "ex_ref ''trusty'' ''wordpress'' (- 1)"
  let ?req = "ex_request ''new''"
  let ?X = "addBlobAndEntity ?env ex_store ?id ''new'' ''sha384:new'' 3"
  let ?cs = "[BlobPut ''blob-2'', BlobOpen ''blob-2'', BaseInsert (baseURL ?id),
        EntityInsert ?id, SearchUpdate ?id, EntityRemove ?id, BlobRemove ''blob-2'']"
  have n: "NewObjectId ?env = ''blob-2''" by (simp add: ex_env_def)
  have put: "fst (BlobStore_PutUnchallenged ?env ex_store ''new'' (NewObjectId ?env) 3 ''sha384:new'') = None"
    by (simp add: BlobStore_PutUnchallenged_def ex_defs Let_def)
  have opn: "\<not> fails ?env AtOpenBlob" by (simp add: ex_env_def)
  have fresh: "\<forall>d\<in>set (entities ex_store). BlobName d \<noteq> NewObjectId ?env"
    by (simp add: ex_defs)
  have c1: "\<not> fails ?env AtRemoveBlob" and c2: "\<not> fails ?env AtRemoveEntity"
    by (simp_all add: ex_env_def)
  have f: "fst ?X \<noteq> None"
    by (simp add: model_defs prim_defs ex_defs Let_def)
  have cs: "calls (snd ?X) = calls ex_store @ ?cs"
    by (simp add: model_defs prim_defs ex_defs Let_def)
  have cs0: "calls (snd ?X) = ?cs" using cs by (simp add: ex_store_def)
  have m: "SearchUpdate ?id \<in> set ?cs" by simp
  from f obtain e where e: "fst ?X = Some e" by blast
  then have run: "?X = (Some e, snd ?X)" by (simp add: prod_eq_iff)
  note r = addBlobAndEntity_rollback[OF put opn fresh run c1 c2, unfolded n]
  have b: "blobs (snd ?X) ''blob-2'' = None" using r by blast
  have bb: "blobs (snd ?X) = blobs ex_store" using r by blast
  have en: "entities (snd ?X) = entities ex_store" using r by blast
  have ms: "msg e = Prefixed (Fmt ''cannot index %s to ElasticSearch'' [ArgRef ?id])
         (Text ''search index failure'')" using r cs m by blast
  have reqH: "Body ?req = ''new'' \<and> FormHash ?req = ''sha384:new'' \<and> ContentLength ?req = 3
      \<and> Series ?id \<noteq> '''' \<and> Revision ?id \<noteq> - 1 \<and> ''sha384:new'' \<noteq> '''' \<and> (3::int) \<noteq> - 1"
    by (simp add: ex_defs)
  with r have pt: "servePutArchive ?env ex_store ?id ?req =
               (Inl (errgo_Mask e (errgo_Is ErrDuplicateUpload)),
                (snd ?X)\<lparr>counters := counters (snd ?X) @
                      [EntityStatsKey (?id\<lparr>Revision := - 1\<rparr>) StatsArchiveFailedUpload]\<rparr>)"
    by blast
  have li: "latestRevisionInfo ?env ex_store ?pid =
      (Some (ex_ref ''trusty'' ''wordpress'' 0), ''sha384:old'', None)"
    by (simp add: latestRevisionInfo_def FindEntities_def Entities_Find_def matchURL_def
        baseURL_def no_pass_def ex_defs Let_def)
  have postH: "Body ?req = ''new'' \<and> FormHash ?req = ''sha384:new'' \<and> ContentLength ?req = 3
      \<and> Series ?pid \<noteq> '''' \<and> Revision ?pid = - 1 \<and> ''sha384:new'' \<noteq> '''' \<and> (3::int) \<noteq> - 1
      \<and> latestRevisionInfo ?env ex_store ?pid =
           (Some (ex_ref ''trusty'' ''wordpress'' 0), ''sha384:old'', None)
      \<and> (None = None \<or> cause (the (None :: err option)) = ErrNotFound)
      \<and> ''sha384:old'' \<noteq> ''sha384:new''
      \<and> ?id = ?pid\<lparr>Revision := (case Some (ex_ref ''trusty'' ''wordpress'' 0) of
                                      Some old \<Rightarrow> int_wrap (Revision old + 1)
                                    | None \<Rightarrow> 0)\<rparr>"
    using li by (simp add: ex_defs int_wrap_def)
  with r have ps: "servePostArchive ?env ex_store ?pid ?req =
               (Inl (errgo_Mask e (errgo_Is ErrDuplicateUpload)),
                (snd ?X)\<lparr>counters := counters (snd ?X) @
                      [EntityStatsKey (?pid\<lparr>Revision := - 1\<rparr>) StatsArchiveFailedUpload]\<rparr>)"
    by blast
  show ?thesis
    using f b en cs0 ms by (simp add: e pt ps bb)
qed

text \<open>
  The reopening of the blob is a stage of its own, between the write and the deferred
  removal: when it fails, \<^verbatim>\<open>addBlobAndEntity\<close> returns before the removal is
  registered, and the blob that has just been written stays in the store.
\<close>

lemma addBlobAndEntity_reopen_failure:
  assumes "fst (BlobStore_PutUnchallenged env s body (NewObjectId env) contentLength hash) = None"
    and "fails env AtOpenBlob"
  shows "fst (addBlobAndEntity env s eid body hash contentLength) =
           Some (errgo_Notef (io_failure ''blob store failure'') ''cannot open newly created blob'' [])
       \<and> blobs (snd (addBlobAndEntity env s eid body hash contentLength)) (NewObjectId env) =
           Some body"
  using assms
  by (auto simp add: addBlobAndEntity_def BlobStore_PutUnchallenged_def BlobStore_Open_def Let_def
      split: if_splits)

text \<open>
  C1: a failure at a stage after the blob has been written does not always remove the
  blob. \<^verbatim>\<open>addBlobAndEntity\<close> registers the deferred removal only after it has reopened
  the blob, and returns at once when the reopening fails. On the store of the example,
  with a blob store that writes the blob and then fails to open it, a PUT of revision 1
  of \<^verbatim>\<open>wordpress\<close>, and a POST of the same charm, return the error
  \<^verbatim>\<open>cannot open newly created blob\<close>. No blob was stored under the fresh name before
  the upload; after it the uploaded bytes are stored under that name, the entities are
  unchanged, and the storage calls are the put and the open alone: nothing removes the
  blob. The comment at the head of the function says that the blob is removed if the
  function fails later, and at the later stages it is (lemma
  \<open>addBlobAndEntity_rollback\<close>).
\<close>

theorem upload_reopen_failure_keeps_blob:
  "blobs ex_store ''blob-2'' = None
   \<and> fst (servePutArchive (ex_env (\<lambda>at. at = AtOpenBlob)) ex_store
            (ex_ref ''trusty'' ''wordpress'' 1) (ex_request ''new'')) =
       Inl \<lparr>cause = NoCause,
            msg = Prefixed (Text ''cannot open newly created blob'') (Text ''blob store failure'')\<rparr>
   \<and> blobs (snd (servePutArchive (ex_env (\<lambda>at. at = AtOpenBlob)) ex_store
            (ex_ref ''trusty'' ''wordpress'' 1) (ex_request ''new''))) ''blob-2'' = Some ''new''
   \<and> entities (snd (servePutArchive (ex_env (\<lambda>at. at = AtOpenBlob)) ex_store
            (ex_ref ''trusty'' ''wordpress'' 1) (ex_request ''new''))) = entities ex_store
   \<and> calls (snd (servePutArchive (ex_env (\<lambda>at. at = AtOpenBlob)) ex_store
            (ex_ref ''trusty'' ''wordpress'' 1) (ex_request ''new''))) =
       [BlobPut ''blob-2'', BlobOpen ''blob-2'']
   \<and> fst (servePostArchive (ex_env (\<lambda>at. at = AtOpenBlob)) ex_store
            (ex_ref ''trusty'' ''wordpress'' (- 1)) (ex_request ''new'')) =
       Inl \<lparr>cause = NoCause,
            msg = Prefixed (Text ''cannot open newly created blob'') (Text ''blob store failure'')\<rparr>
   \<and> blobs (snd (servePostArchive (ex_env (\<lambda>at. at = AtOpenBlob)) ex_store
            (ex_ref ''trusty'' ''wordpress'' (- 1)) (ex_request ''new''))) ''blob-2'' = Some ''new''
   \<and> entities (snd (servePostArchive (ex_env (\<lambda>at. at = AtOpenBlob)) ex_store
            (ex_ref ''trusty'' ''wordpress'' (- 1)) (ex_request ''new''))) = entities ex_store
   \<and> calls (snd (servePostArchive (ex_env (\<lambda>at. at = AtOpenBlob)) ex_store
            (ex_ref ''trusty'' ''wordpress'' (- 1)) (ex_request ''new''))) =
       [BlobPut ''blob-2'', BlobOpen ''blob-2'']"
proof -
  have put: "servePutArchive (ex_env (\<lambda>at. at = AtOpenBlob)) ex_store
            (ex_ref ''trusty'' ''wordpress'' 1) (ex_request ''new'') =
      (Inl \<lparr>cause = NoCause,
            msg = Prefixed (Text ''cannot open newly created blob'') (Text ''blob store failure'')\<rparr>,
       ex_store\<lparr>blobs := (blobs ex_store)(''blob-2'' \<mapsto> ''new''),
                counters := [EntityStatsKey (ex_ref ''trusty'' ''wordpress'' (- 1))
                               StatsArchiveFailedUpload],
                calls := [BlobPut ''blob-2'', BlobOpen ''blob-2'']\<rparr>)"
    by (simp add: servePutArchive_def servePutArchive_body_def
        updateStatsArchiveUpload_def error_of_def
        model_defs prim_defs ex_defs Let_def)
  have post: "servePostArchive (ex_env (\<lambda>at. at = AtOpenBlob)) ex_store
            (ex_ref ''trusty'' ''wordpress'' (- 1)) (ex_request ''new'') =
      (Inl \<lparr>cause = NoCause,
            msg = Prefixed (Text ''cannot open newly created blob'') (Text ''blob store failure'')\<rparr>,
       ex_store\<lparr>blobs := (blobs ex_store)(''blob-2'' \<mapsto> ''new''),
                counters := [EntityStatsKey (ex_ref ''trusty'' ''wordpress'' (- 1))
                               StatsArchiveFailedUpload],
                calls := [BlobPut ''blob-2'', BlobOpen ''blob-2'']\<rparr>)"
    by (simp add: servePostArchive_def servePostArchive_body_def latestRevisionInfo_def
        FindEntities_def Entities_Find_def matchURL_def baseURL_def no_pass_def
        updateStatsArchiveUpload_def error_of_def int_wrap_def
        model_defs prim_defs ex_defs Let_def)
  have absent: "blobs ex_store ''blob-2'' = None" by (simp add: ex_store_def)
  show ?thesis unfolding put post using absent by simp
qed

section \<open>Base entities are public\<close>

text \<open>
  C10: \<^verbatim>\<open>insertEntity\<close> inserts, when none with the entity's base URL is present (and
  the insert does not fail), a base entity whose \<^verbatim>\<open>Public\<close> flag is true, whose read
  ACL is "everyone" followed by the owning user when there is one, and whose write ACL
  is that user alone; a base entity already present is left as it is. Nothing in the
  parameters of an upload asks for anything else: after a POST or a PUT, every base
  entity that was not there before is public and readable by "everyone".
\<close>

theorem insertEntity_public_base:
  "(BaseURL entity \<notin> set (map BURL (base_entities s)) \<and> \<not> fails env AtInsertBase \<longrightarrow>
      base_entities (snd (insertEntity env s entity)) =
        base_entities s @
          [\<lparr>BURL = BaseURL entity, BUser = EUser entity, BName = EName entity, Public = True,
            ACLs = \<lparr>Read = ''everyone'' # (if EUser entity = '''' then [] else [EUser entity]),
                    Write = (if EUser entity = '''' then [] else [EUser entity])\<rparr>,
            Promulgated = (PromulgatedURL entity \<noteq> None)\<rparr>])
   \<and> (BaseURL entity \<in> set (map BURL (base_entities s)) \<longrightarrow>
        base_entities (snd (insertEntity env s entity)) = base_entities s)
   \<and> (\<forall>b \<in> set (base_entities (snd (servePostArchive env s eid req))).
        b \<in> set (base_entities s) \<or> (Public b \<and> ''everyone'' \<in> set (Read (ACLs b))))
   \<and> (\<forall>b \<in> set (base_entities (snd (servePutArchive env s eid req))).
        b \<in> set (base_entities s) \<or> (Public b \<and> ''everyone'' \<in> set (Read (ACLs b))))"
proof -
  have a: "BaseURL entity \<notin> set (map BURL (base_entities s)) \<and> \<not> fails env AtInsertBase \<longrightarrow>
      base_entities (snd (insertEntity env s entity)) =
        base_entities s @
          [\<lparr>BURL = BaseURL entity, BUser = EUser entity, BName = EName entity, Public = True,
            ACLs = \<lparr>Read = ''everyone'' # (if EUser entity = '''' then [] else [EUser entity]),
                    Write = (if EUser entity = '''' then [] else [EUser entity])\<rparr>,
            Promulgated = (PromulgatedURL entity \<noteq> None)\<rparr>]"
    by (auto simp add: insertEntity_def Let_def prim_defs mgo_IsDup_def everyonePerm_def
        params_Everyone_def split: prod.splits option.splits)
  have b: "BaseURL entity \<in> set (map BURL (base_entities s)) \<longrightarrow>
        base_entities (snd (insertEntity env s entity)) = base_entities s"
    by (auto simp add: insertEntity_def Let_def prim_defs mgo_IsDup_def
        split: prod.splits option.splits)
  have c: "\<forall>b \<in> set (base_entities (snd (servePostArchive env s eid req))).
        b \<in> set (base_entities s) \<or> (Public b \<and> ''everyone'' \<in> set (Read (ACLs b)))"
  proof
    fix b assume b: "b \<in> set (base_entities (snd (servePostArchive env s eid req)))"
    obtain r s' where body: "servePostArchive_body env s eid req = (r, s')"
      by (cases "servePostArchive_body env s eid req")
    from b have "b \<in> set (base_entities s')"
      by (simp add: servePostArchive_def body updateStatsArchiveUpload_def IncCounterAsync_def Let_def)
    from servePostArchive_body_base[OF body this]
    show "b \<in> set (base_entities s) \<or> (Public b \<and> ''everyone'' \<in> set (Read (ACLs b)))"
      by (simp add: params_Everyone_def)
  qed
  have d: "\<forall>b \<in> set (base_entities (snd (servePutArchive env s eid req))).
        b \<in> set (base_entities s) \<or> (Public b \<and> ''everyone'' \<in> set (Read (ACLs b)))"
  proof
    fix b assume b: "b \<in> set (base_entities (snd (servePutArchive env s eid req)))"
    obtain r s' where body: "servePutArchive_body env s eid req = (r, s')"
      by (cases "servePutArchive_body env s eid req")
    from b have "b \<in> set (base_entities s')"
      by (simp add: servePutArchive_def body updateStatsArchiveUpload_def IncCounterAsync_def Let_def)
    from servePutArchive_body_base[OF body this]
    show "b \<in> set (base_entities s) \<or> (Public b \<and> ''everyone'' \<in> set (Read (ACLs b)))"
      by (simp add: params_Everyone_def)
  qed
  from a b c d show ?thesis by blast
qed

theorem insertEntity_public_base_witness:
  "BaseURL (ex_entity (ex_ref ''trusty'' ''mysql'' 0) ''blob-2'' ''sha384:new'')
      \<notin> set (map BURL (base_entities ex_store))
   \<and> \<not> fails (ex_env no_faults) AtInsertBase
   \<and> base_entities (snd (insertEntity (ex_env no_faults) ex_store
         (ex_entity (ex_ref ''trusty'' ''mysql'' 0) ''blob-2'' ''sha384:new''))) =
       base_entities ex_store @
         [\<lparr>BURL = \<lparr>User = ''bob'', Name = ''mysql'', Revision = - 1, Series = ''''\<rparr>,
           BUser = ''bob'', BName = ''mysql'', Public = True,
           ACLs = \<lparr>Read = [''everyone'', ''bob''], Write = [''bob'']\<rparr>, Promulgated = False\<rparr>]
   \<and> ex_base ''mysql'' \<in> set (base_entities (snd (servePostArchive (ex_env no_faults) ex_store
         (ex_ref ''trusty'' ''mysql'' (- 1)) (ex_request ''new''))))
   \<and> ex_base ''mysql'' \<notin> set (base_entities ex_store)
   \<and> Public (ex_base ''mysql'') \<and> ''everyone'' \<in> set (Read (ACLs (ex_base ''mysql'')))"
proof -
  let ?e = "ex_entity (ex_ref ''trusty'' ''mysql'' 0) ''blob-2'' ''sha384:new''"
  note t = insertEntity_public_base[of ?e ex_store "ex_env no_faults"
      "ex_ref ''trusty'' ''mysql'' (- 1)" "ex_request ''new''"]
  have h1: "BaseURL ?e \<notin> set (map BURL (base_entities ex_store))"
    by (simp add: ex_defs baseURL_def)
  have h2: "\<not> fails (ex_env no_faults) AtInsertBase"
    by (simp add: ex_defs)
  from t h1 h2 have c1: "base_entities (snd (insertEntity (ex_env no_faults) ex_store ?e)) =
       base_entities ex_store @
         [\<lparr>BURL = \<lparr>User = ''bob'', Name = ''mysql'', Revision = - 1, Series = ''''\<rparr>,
           BUser = ''bob'', BName = ''mysql'', Public = True,
           ACLs = \<lparr>Read = [''everyone'', ''bob''], Write = [''bob'']\<rparr>, Promulgated = False\<rparr>]"
    by (simp add: ex_entity_def ex_ref_def baseURL_def)
  have m: "ex_base ''mysql'' \<in> set (base_entities (snd (servePostArchive (ex_env no_faults) ex_store
         (ex_ref ''trusty'' ''mysql'' (- 1)) (ex_request ''new''))))"
    by (simp add: servePostArchive_def servePostArchive_body_def latestRevisionInfo_def
        updateStatsArchiveUpload_def error_of_def WriteJSON_def int_wrap_def
        model_defs prim_defs ex_defs Let_def)
  have n: "ex_base ''mysql'' \<notin> set (base_entities ex_store)"
    by (simp add: ex_defs)
  from t m n have "Public (ex_base ''mysql'') \<and> ''everyone'' \<in> set (Read (ACLs (ex_base ''mysql'')))"
    by blast
  with h1 h2 c1 m n show ?thesis by blast
qed

section \<open>Deleting an archive\<close>

text \<open>
  C5, amended: for a DELETE of an existing archive (one row has the id, and the lookup
  and the removal of the row succeed) the entity row is removed first and then the blob.
  A failure to remove the blob makes the handler fail: it returns the error
  \<^verbatim>\<open>cannot remove blob\<close> with the row already removed and no \<^verbatim>\<open>archive-delete\<close>
  counter requested. When the blob store removes the blob (a missing blob included, the
  removal being idempotent) the handler succeeds and requests the counter.
\<close>

theorem serveDeleteArchive_effect:
  assumes "\<not> fails env AtFindId"
    and "filter (\<lambda>doc. URL doc = eid) (entities s) = [entity]"
    and "\<not> fails env AtRemoveEntity"
  shows "serveDeleteArchive env s eid =
     (if fails env AtRemoveBlob
      then (Some (errgo_Notef (io_failure ''blob store failure'') ''cannot remove blob %s''
                    [ArgStr (BlobName entity)]),
            s\<lparr>calls := calls s @ [EntityRemove eid, BlobRemove (BlobName entity)],
              entities := filter (\<lambda>doc. URL doc \<noteq> eid) (entities s)\<rparr>)
      else (None,
            s\<lparr>calls := calls s @ [EntityRemove eid, BlobRemove (BlobName entity)],
              entities := filter (\<lambda>doc. URL doc \<noteq> eid) (entities s),
              blobs := (blobs s)(BlobName entity := None),
              counters := counters s @ [EntityStatsKey eid StatsArchiveDelete]\<rparr>))"
proof -
  have "entity \<in> set (filter (\<lambda>doc. URL doc = eid) (entities s))" using assms(2) by simp
  then have "eid \<in> set (map URL (entities s))" by auto
  then show ?thesis using assms
    by (simp add: serveDeleteArchive_def BlobNameAndHash_def prim_defs Let_def)
qed

theorem serveDeleteArchive_effect_witness:
  "\<not> fails (ex_env no_faults) AtFindId
   \<and> filter (\<lambda>doc. URL doc = ex_ref ''trusty'' ''wordpress'' 0) (entities ex_store) =
       [ex_entity (ex_ref ''trusty'' ''wordpress'' 0) ''blob-0'' ''sha384:old'']
   \<and> \<not> fails (ex_env no_faults) AtRemoveEntity
   \<and> serveDeleteArchive (ex_env no_faults) ex_store (ex_ref ''trusty'' ''wordpress'' 0) =
       (None,
        ex_store\<lparr>calls := [EntityRemove (ex_ref ''trusty'' ''wordpress'' 0), BlobRemove ''blob-0''],
          entities := [ex_entity (ex_ref ''bundle'' ''stack'' 0) ''blob-1'' ''sha384:stk''],
          blobs := (blobs ex_store)(''blob-0'' := None),
          counters := [(''archive-delete'', ex_ref ''trusty'' ''wordpress'' 0)]\<rparr>)
   \<and> serveDeleteArchive (ex_env (\<lambda>at. at = AtRemoveBlob)) ex_store
         (ex_ref ''trusty'' ''wordpress'' 0) =
       (Some (errgo_Notef (io_failure ''blob store failure'') ''cannot remove blob %s''
                [ArgStr ''blob-0'']),
        ex_store\<lparr>calls := [EntityRemove (ex_ref ''trusty'' ''wordpress'' 0), BlobRemove ''blob-0''],
          entities := [ex_entity (ex_ref ''bundle'' ''stack'' 0) ''blob-1'' ''sha384:stk'']\<rparr>)"
proof -
  let ?e = "ex_entity (ex_ref ''trusty'' ''wordpress'' 0) ''blob-0'' ''sha384:old''"
  let ?f = "ex_env (\<lambda>at. at = AtRemoveBlob)"
  have h1: "\<not> fails (ex_env no_faults) AtFindId" and h3: "\<not> fails (ex_env no_faults) AtRemoveEntity"
    and h4: "\<not> fails (ex_env no_faults) AtRemoveBlob"
    by (simp_all add: ex_defs)
  have g1: "\<not> fails ?f AtFindId" and g3: "\<not> fails ?f AtRemoveEntity"
    and g4: "fails ?f AtRemoveBlob"
    by (simp_all add: ex_defs)
  have h2: "filter (\<lambda>doc. URL doc = ex_ref ''trusty'' ''wordpress'' 0) (entities ex_store) = [?e]"
    by (simp add: ex_defs)
  from serveDeleteArchive_effect[OF h1 h2 h3] h4
  have a: "serveDeleteArchive (ex_env no_faults) ex_store (ex_ref ''trusty'' ''wordpress'' 0) =
       (None,
        ex_store\<lparr>calls := [EntityRemove (ex_ref ''trusty'' ''wordpress'' 0), BlobRemove ''blob-0''],
          entities := [ex_entity (ex_ref ''bundle'' ''stack'' 0) ''blob-1'' ''sha384:stk''],
          blobs := (blobs ex_store)(''blob-0'' := None),
          counters := [(''archive-delete'', ex_ref ''trusty'' ''wordpress'' 0)]\<rparr>)"
    by (simp add: ex_defs EntityStatsKey_def StatsArchiveDelete_def)
  from serveDeleteArchive_effect[OF g1 h2 g3] g4
  have b: "serveDeleteArchive ?f ex_store (ex_ref ''trusty'' ''wordpress'' 0) =
       (Some (errgo_Notef (io_failure ''blob store failure'') ''cannot remove blob %s''
                [ArgStr ''blob-0'']),
        ex_store\<lparr>calls := [EntityRemove (ex_ref ''trusty'' ''wordpress'' 0), BlobRemove ''blob-0''],
          entities := [ex_entity (ex_ref ''bundle'' ''stack'' 0) ''blob-1'' ''sha384:stk'']\<rparr>)"
    by (simp add: ex_defs)
  from h1 h2 h3 a b show ?thesis by blast
qed

text \<open>
  C5 as stated fails: with a blob store whose removal fails, the DELETE of
  \<^verbatim>\<open>trusty/wordpress-0\<close> returns an error, after the entity row has been removed, and
  requests no counter.
\<close>

theorem serveDeleteArchive_blob_failure:
  "fst (serveDeleteArchive (ex_env (\<lambda>at. at = AtRemoveBlob)) ex_store
          (ex_ref ''trusty'' ''wordpress'' 0)) =
     Some \<lparr>cause = NoCause,
           msg = Prefixed (Fmt ''cannot remove blob %s'' [ArgStr ''blob-0''])
                   (Text ''blob store failure'')\<rparr>
   \<and> entities (snd (serveDeleteArchive (ex_env (\<lambda>at. at = AtRemoveBlob)) ex_store
          (ex_ref ''trusty'' ''wordpress'' 0))) =
       [ex_entity (ex_ref ''bundle'' ''stack'' 0) ''blob-1'' ''sha384:stk'']
   \<and> counters (snd (serveDeleteArchive (ex_env (\<lambda>at. at = AtRemoveBlob)) ex_store
          (ex_ref ''trusty'' ''wordpress'' 0))) = []"
  by (simp add: serveDeleteArchive_def BlobNameAndHash_def model_defs prim_defs ex_defs Let_def)

section \<open>Preconditions of POST\<close>

text \<open>
  C7: POST returns an error whose cause is \<^verbatim>\<open>ErrBadRequest\<close> exactly when the series
  of the id is empty, or its revision is not \<open>-1\<close>, or the hash parameter is empty, or
  the content length is \<open>-1\<close> (not specified). In that case nothing is written: the
  store after the handler is the store before it with one \<^verbatim>\<open>archive-failed-upload\<close>
  counter key added.
\<close>

theorem servePostArchive_bad_request:
  "(\<exists>e. fst (servePostArchive env s eid req) = Inl e \<and> cause e = ErrBadRequest) =
     (Series eid = '''' \<or> Revision eid \<noteq> - 1 \<or> FormHash req = '''' \<or> ContentLength req = - 1)
   \<and> (Series eid = '''' \<or> Revision eid \<noteq> - 1 \<or> FormHash req = '''' \<or> ContentLength req = - 1
        \<longrightarrow> snd (servePostArchive env s eid req) =
             s\<lparr>counters := counters s @
                  [EntityStatsKey (eid\<lparr>Revision := - 1\<rparr>) StatsArchiveFailedUpload]\<rparr>)"
  by (auto simp add: servePostArchive_def servePostArchive_body_def Let_def badRequestf_def
        errgo_WithCausef_def errgo_Notef_def errgo_Mask_def errgo_Is_def WriteJSON_def io_failure_def
        updateStatsArchiveUpload_def IncCounterAsync_def error_of_def
      split: prod.splits option.splits sum.splits if_splits)

theorem servePostArchive_bad_request_witness:
  "Revision (ex_ref ''trusty'' ''wordpress'' 0) \<noteq> - 1
   \<and> (\<exists>e. fst (servePostArchive (ex_env no_faults) ex_store (ex_ref ''trusty'' ''wordpress'' 0)
              (ex_request ''new'')) = Inl e \<and> cause e = ErrBadRequest)
   \<and> snd (servePostArchive (ex_env no_faults) ex_store (ex_ref ''trusty'' ''wordpress'' 0)
              (ex_request ''new'')) =
       ex_store\<lparr>counters := [(''archive-failed-upload'', ex_ref ''trusty'' ''wordpress'' (- 1))]\<rparr>
   \<and> \<not> (\<exists>e. fst (servePostArchive (ex_env no_faults) ex_store
                (ex_ref ''trusty'' ''wordpress'' (- 1)) (ex_request ''new'')) = Inl e
            \<and> cause e = ErrBadRequest)"
proof -
  note t1 = servePostArchive_bad_request[of "ex_env no_faults" ex_store
     "ex_ref ''trusty'' ''wordpress'' 0" "ex_request ''new''"]
  note t2 = servePostArchive_bad_request[of "ex_env no_faults" ex_store
     "ex_ref ''trusty'' ''wordpress'' (- 1)" "ex_request ''new''"]
  have h: "Revision (ex_ref ''trusty'' ''wordpress'' 0) \<noteq> - 1" by (simp add: ex_ref_def)
  have a: "\<exists>e. fst (servePostArchive (ex_env no_faults) ex_store (ex_ref ''trusty'' ''wordpress'' 0)
              (ex_request ''new'')) = Inl e \<and> cause e = ErrBadRequest"
    using t1 h by blast
  have b: "snd (servePostArchive (ex_env no_faults) ex_store (ex_ref ''trusty'' ''wordpress'' 0)
              (ex_request ''new'')) =
       ex_store\<lparr>counters := [(''archive-failed-upload'', ex_ref ''trusty'' ''wordpress'' (- 1))]\<rparr>"
    using t1 h by (simp add: ex_defs EntityStatsKey_def StatsArchiveFailedUpload_def)
  have "\<not> (Series (ex_ref ''trusty'' ''wordpress'' (- 1)) = ''''
          \<or> Revision (ex_ref ''trusty'' ''wordpress'' (- 1)) \<noteq> - 1
          \<or> FormHash (ex_request ''new'') = '''' \<or> ContentLength (ex_request ''new'') = - 1)"
    by (simp add: ex_defs)
  with t2 have c: "\<not> (\<exists>e. fst (servePostArchive (ex_env no_faults) ex_store
                (ex_ref ''trusty'' ''wordpress'' (- 1)) (ex_request ''new'')) = Inl e
            \<and> cause e = ErrBadRequest)"
    by blast
  from h a b c show ?thesis by blast
qed

section \<open>The latest revision of an id\<close>

lemma latest_fold:
  fixes l :: Entity
  defines "f \<equiv> (\<lambda>latest entity.
             if Revision (URL entity) > Revision (URL latest) then entity else latest)"
  shows "foldl f l xs \<in> set (l # xs) \<and> (\<forall>e\<in>set (l # xs). Revision (URL e) \<le> Revision (URL (foldl f l xs)))"
proof (induction xs arbitrary: l)
  case Nil
  then show ?case by simp
next
  case (Cons x xs)
  from Cons[of "f l x"] show ?case by (auto simp: f_def split: if_splits)
qed

lemma baseURL_eq: "baseURL a = baseURL b \<longleftrightarrow> User a = User b \<and> Name a = Name b"
  by (cases a; cases b) (simp add: baseURL_def)

lemma FindEntities_family:
  assumes "\<forall>d\<in>set (entities s). BaseURL d = baseURL (URL d)"
    and "Series eid \<noteq> ''''" "Revision eid = - 1" "\<not> fails env at"
  shows "FindEntities env at s eid = Inr (family s eid)"
proof -
  have "filter (\<lambda>doc. matchURL (URL doc) eid)
          (filter (\<lambda>doc. BaseURL doc = baseURL eid) (entities s)) = family s eid"
    unfolding family_def filter_filter
    by (rule filter_cong) (use assms in \<open>auto simp: matchURL_def baseURL_eq\<close>)
  then show ?thesis using assms by (simp add: FindEntities_def Entities_Find_def Let_def)
qed

lemma latestRevisionInfo_family:
  assumes "\<forall>d\<in>set (entities s). BaseURL d = baseURL (URL d)"
    and "Series eid \<noteq> ''''" "Revision eid = - 1" "\<not> fails env AtFindLatest"
  shows "family s eid = [] \<longrightarrow>
           latestRevisionInfo env s eid = (None, '''', Some params_ErrNotFound)"
    and "family s eid \<noteq> [] \<longrightarrow>
           (\<exists>d\<in>set (family s eid).
              (\<forall>d'\<in>set (family s eid). Revision (URL d') \<le> Revision (URL d))
              \<and> latestRevisionInfo env s eid = (Some (URL d), BlobHash d, None))"
proof -
  note fe = FindEntities_family[OF assms]
  show "family s eid = [] \<longrightarrow>
           latestRevisionInfo env s eid = (None, '''', Some params_ErrNotFound)"
    by (simp add: latestRevisionInfo_def fe)
  show "family s eid \<noteq> [] \<longrightarrow>
           (\<exists>d\<in>set (family s eid).
              (\<forall>d'\<in>set (family s eid). Revision (URL d') \<le> Revision (URL d))
              \<and> latestRevisionInfo env s eid = (Some (URL d), BlobHash d, None))"
  proof
    assume "family s eid \<noteq> []"
    then obtain e0 rest where fam: "family s eid = e0 # rest" by (cases "family s eid") auto
    define latest where "latest = foldl (\<lambda>latest entity.
         if Revision (URL entity) > Revision (URL latest) then entity else latest) e0 (e0 # rest)"
    have "latest \<in> set (e0 # e0 # rest)
        \<and> (\<forall>e\<in>set (e0 # e0 # rest). Revision (URL e) \<le> Revision (URL latest))"
      unfolding latest_def by (rule latest_fold)
    then have "latest \<in> set (family s eid)"
      and "\<forall>d'\<in>set (family s eid). Revision (URL d') \<le> Revision (URL latest)"
      by (auto simp: fam)
    moreover have "latestRevisionInfo env s eid = (Some (URL latest), BlobHash latest, None)"
      by (simp add: latestRevisionInfo_def fe fam latest_def Let_def)
    ultimately show "\<exists>d\<in>set (family s eid).
              (\<forall>d'\<in>set (family s eid). Revision (URL d') \<le> Revision (URL d))
              \<and> latestRevisionInfo env s eid = (Some (URL d), BlobHash d, None)"
      by blast
  qed
qed

lemma family_same_URL:
  "d \<in> set (family s eid) \<Longrightarrow> d' \<in> set (family s eid) \<Longrightarrow>
   Revision (URL d) = Revision (URL d') \<Longrightarrow> URL d = URL d'"
  by (auto simp: family_def)

lemma family_entities: "d \<in> set (family s eid) \<Longrightarrow> d \<in> set (entities s)"
  by (simp add: family_def)

lemma addBlobAndEntity_ok:
  assumes "addBlobAndEntity env s eid body h l = (None, s')"
  shows "\<exists>d. entities s' = entities s @ [d] \<and> URL d = eid \<and> ERevision d = Revision eid
           \<and> BlobHash d = h \<and> BlobName d = NewObjectId env"
  using assms
  by (auto simp add: addBlobAndEntity_def Let_def prim_defs
      split: prod.splits option.splits if_splits sum.splits
      dest!: addEntity_ok)

lemma addBlobAndEntity_ok_blob:
  assumes "addBlobAndEntity env s eid body h l = (None, s')"
  shows "blobs s' = (blobs s)(NewObjectId env \<mapsto> body)"
  using assms
  by (auto simp add: addBlobAndEntity_def Let_def prim_defs
      split: prod.splits option.splits if_splits sum.splits
      dest: addEntity_frame)

section \<open>POST with the hash of the latest revision\<close>

text \<open>
  C2: for a POST that passes its preconditions, in a store whose rows are keyed by URL
  and carry their base URL, when the entity of the latest revision for the same user,
  name and series has the declared hash and the lookup and the response writer work,
  the handler returns success with that entity's URL. Nothing is written: the store
  after the handler is the store before it, with one \<^verbatim>\<open>archive-upload\<close> counter key
  added (no blob, no entity, no storage call).
\<close>

theorem servePostArchive_same_hash:
  assumes wf: "distinct (map URL (entities s))" "\<forall>d\<in>set (entities s). BaseURL d = baseURL (URL d)"
    and pre: "Series eid \<noteq> ''''" "Revision eid = - 1" "FormHash req \<noteq> ''''"
      "ContentLength req \<noteq> - 1"
    and io: "\<not> fails env AtFindLatest" "\<not> fails env AtWriteResponse"
    and latest: "d \<in> set (family s eid)"
      "\<forall>d'\<in>set (family s eid). Revision (URL d') \<le> Revision (URL d)"
    and hash: "BlobHash d = FormHash req"
  shows "servePostArchive env s eid req =
           (Inr \<lparr>RespId = Some (URL d)\<rparr>,
            s\<lparr>counters := counters s @ [EntityStatsKey eid StatsArchiveUpload]\<rparr>)"
proof -
  have ne: "family s eid \<noteq> []" using latest(1) by auto
  from latestRevisionInfo_family(2)[OF wf(2) pre(1,2) io(1)] ne
  obtain l where l: "l \<in> set (family s eid)"
    and lmax: "\<forall>d'\<in>set (family s eid). Revision (URL d') \<le> Revision (URL l)"
    and li: "latestRevisionInfo env s eid = (Some (URL l), BlobHash l, None)"
    by blast
  have "Revision (URL l) = Revision (URL d)"
    using l lmax latest by (meson order_antisym)
  then have "URL l = URL d" using family_same_URL[OF l latest(1)] by simp
  moreover have "l \<in> set (entities s)" "d \<in> set (entities s)"
    using l latest(1) by (simp_all add: family_entities)
  ultimately have "l = d" using wf(1) by (meson distinct_map inj_onD)
  have eid: "eid\<lparr>Revision := - 1\<rparr> = eid" using pre(2) by simp
  show ?thesis
    using pre io hash
    by (simp add: servePostArchive_def servePostArchive_body_def li \<open>l = d\<close> WriteJSON_def
        error_of_def updateStatsArchiveUpload_def IncCounterAsync_def eid Let_def)
qed

theorem servePostArchive_same_hash_witness:
  "distinct (map URL (entities ex_store))
   \<and> ex_entity (ex_ref ''trusty'' ''wordpress'' 0) ''blob-0'' ''sha384:old''
        \<in> set (family ex_store (ex_ref ''trusty'' ''wordpress'' (- 1)))
   \<and> BlobHash (ex_entity (ex_ref ''trusty'' ''wordpress'' 0) ''blob-0'' ''sha384:old'') =
        FormHash (ex_request ''old'')
   \<and> servePostArchive (ex_env no_faults) ex_store (ex_ref ''trusty'' ''wordpress'' (- 1))
        (ex_request ''old'') =
       (Inr \<lparr>RespId = Some (ex_ref ''trusty'' ''wordpress'' 0)\<rparr>,
        ex_store\<lparr>counters := [(''archive-upload'', ex_ref ''trusty'' ''wordpress'' (- 1))]\<rparr>)"
proof -
  let ?d = "ex_entity (ex_ref ''trusty'' ''wordpress'' 0) ''blob-0'' ''sha384:old''"
  let ?id = "ex_ref ''trusty'' ''wordpress'' (- 1)"
  have wf1: "distinct (map URL (entities ex_store))" by (simp add: ex_defs)
  have wf2: "\<forall>d\<in>set (entities ex_store). BaseURL d = baseURL (URL d)" by (simp add: ex_defs)
  have pre: "Series ?id \<noteq> ''''" "Revision ?id = - 1" "FormHash (ex_request ''old'') \<noteq> ''''"
      "ContentLength (ex_request ''old'') \<noteq> - 1"
    by (simp_all add: ex_defs)
  have io: "\<not> fails (ex_env no_faults) AtFindLatest" "\<not> fails (ex_env no_faults) AtWriteResponse"
    by (simp_all add: ex_defs)
  have fam: "family ex_store ?id = [?d]" by (simp add: family_def ex_defs)
  have l1: "?d \<in> set (family ex_store ?id)" by (simp add: fam)
  have l2: "\<forall>d'\<in>set (family ex_store ?id). Revision (URL d') \<le> Revision (URL ?d)"
    by (simp add: fam)
  have h: "BlobHash ?d = FormHash (ex_request ''old'')" by (simp add: ex_defs)
  from servePostArchive_same_hash[OF wf1 wf2 pre io l1 l2 h]
  have "servePostArchive (ex_env no_faults) ex_store ?id (ex_request ''old'') =
       (Inr \<lparr>RespId = Some (ex_ref ''trusty'' ''wordpress'' 0)\<rparr>,
        ex_store\<lparr>counters := [(''archive-upload'', ex_ref ''trusty'' ''wordpress'' (- 1))]\<rparr>)"
    by (simp add: ex_defs EntityStatsKey_def StatsArchiveUpload_def)
  with wf1 l1 h show ?thesis by blast
qed

section \<open>The revision of a new upload\<close>

lemma int_wrap_id: "- (2 ^ 63) \<le> x \<Longrightarrow> x < 2 ^ 63 \<Longrightarrow> int_wrap x = x"
  by (simp add: int_wrap_def)

text \<open>
  The addition does not wrap when the existing revisions are below the largest integer.
\<close>

lemma next_revision_in_range:
  assumes "\<forall>d\<in>set (family s eid).
        - (2 ^ 63) \<le> Revision (URL d) \<and> Revision (URL d) < 2 ^ 63 - 1"
  shows "int_wrap (next_revision s eid) = next_revision s eid"
proof (cases "family s eid = []")
  case True
  then show ?thesis by (simp add: next_revision_def int_wrap_def)
next
  case False
  let ?R = "set (map (\<lambda>d. Revision (URL d)) (family s eid))"
  have "Max ?R \<in> ?R" using False by (intro Max_in) auto
  then obtain d where "d \<in> set (family s eid)" "Max ?R = Revision (URL d)" by auto
  with assms have "- (2 ^ 63) \<le> Max ?R \<and> Max ?R < 2 ^ 63 - 1" by auto
  then have "int_wrap (Max ?R + 1) = Max ?R + 1" by (intro int_wrap_id) auto
  then show ?thesis using False by (simp add: next_revision_def)
qed

text \<open>
  For a POST that passes its preconditions, in a store whose rows carry their base URL,
  when the declared hash differs from the hash of the latest revision (or there is no
  revision yet), the upload is made under the id whose revision is \<open>next_revision\<close>
  (the maximum existing revision for the same user, name and series plus one, or 0 when
  there is none) as a Go integer, that is wrapped around to 64 bits. The handler is
  \<^verbatim>\<open>addBlobAndEntity\<close> at that id, and when it succeeds the response names that id
  and the entity added has that revision.
\<close>

lemma servePostArchive_revision:
  assumes wf: "\<forall>d\<in>set (entities s). BaseURL d = baseURL (URL d)"
    and pre: "Series eid \<noteq> ''''" "Revision eid = - 1" "FormHash req \<noteq> ''''"
      "ContentLength req \<noteq> - 1"
    and io: "\<not> fails env AtFindLatest"
    and differs: "\<forall>d\<in>set (family s eid).
        (\<forall>d'\<in>set (family s eid). Revision (URL d') \<le> Revision (URL d))
          \<longrightarrow> BlobHash d \<noteq> FormHash req"
  shows "servePostArchive_body env s eid req =
           (case addBlobAndEntity env s (eid\<lparr>Revision := int_wrap (next_revision s eid)\<rparr>)
                   (Body req) (FormHash req) (ContentLength req) of
              (Some e, s') \<Rightarrow> (Inl (errgo_Mask e (errgo_Is ErrDuplicateUpload)), s')
            | (None, s') \<Rightarrow>
                (WriteJSON env \<lparr>RespId = Some (eid\<lparr>Revision := int_wrap (next_revision s eid)\<rparr>)\<rparr>,
                 s'))
       \<and> (\<forall>resp. fst (servePostArchive env s eid req) = Inr resp \<longrightarrow>
             resp = \<lparr>RespId = Some (eid\<lparr>Revision := int_wrap (next_revision s eid)\<rparr>)\<rparr>
             \<and> (\<exists>d. entities (snd (servePostArchive env s eid req)) = entities s @ [d]
                    \<and> URL d = eid\<lparr>Revision := int_wrap (next_revision s eid)\<rparr>
                    \<and> ERevision d = int_wrap (next_revision s eid)))"
proof -
  let ?id = "eid\<lparr>Revision := int_wrap (next_revision s eid)\<rparr>"
  let ?A = "addBlobAndEntity env s ?id (Body req) (FormHash req) (ContentLength req)"
  have body: "servePostArchive_body env s eid req =
           (case ?A of
              (Some e, s') \<Rightarrow> (Inl (errgo_Mask e (errgo_Is ErrDuplicateUpload)), s')
            | (None, s') \<Rightarrow> (WriteJSON env \<lparr>RespId = Some ?id\<rparr>, s'))"
  proof (cases "family s eid = []")
    case True
    with latestRevisionInfo_family(1)[OF wf pre(1,2) io]
    have "latestRevisionInfo env s eid = (None, '''', Some params_ErrNotFound)" by simp
    moreover have nx0: "int_wrap (next_revision s eid) = 0"
      using True by (simp add: next_revision_def int_wrap_def)
    ultimately show ?thesis unfolding nx0 using pre
      by (simp add: servePostArchive_body_def params_ErrNotFound_def Let_def)
  next
    case False
    with latestRevisionInfo_family(2)[OF wf pre(1,2) io]
    obtain l where l: "l \<in> set (family s eid)"
      and lmax: "\<forall>d'\<in>set (family s eid). Revision (URL d') \<le> Revision (URL l)"
      and li: "latestRevisionInfo env s eid = (Some (URL l), BlobHash l, None)"
      by blast
    have h: "BlobHash l \<noteq> FormHash req" using differs l lmax by blast
    have "Max (set (map (\<lambda>d. Revision (URL d)) (family s eid))) = Revision (URL l)"
      using l lmax by (intro Max_eqI) auto
    then have nx: "next_revision s eid = Revision (URL l) + 1"
      using False by (simp add: next_revision_def)
    show ?thesis unfolding nx using pre h
      by (simp add: servePostArchive_body_def li Let_def)
  qed
  have succ: "resp = \<lparr>RespId = Some ?id\<rparr>
             \<and> (\<exists>d. entities (snd (servePostArchive env s eid req)) = entities s @ [d]
                    \<and> URL d = ?id \<and> ERevision d = int_wrap (next_revision s eid))"
    if r: "fst (servePostArchive env s eid req) = Inr resp" for resp
  proof -
    obtain x s' where a: "?A = (x, s')" by (cases ?A)
    from r have x: "x = None" and w: "WriteJSON env \<lparr>RespId = Some ?id\<rparr> = Inr resp"
      by (auto simp: servePostArchive_def body a split: option.splits prod.splits)
    from w have resp: "resp = \<lparr>RespId = Some ?id\<rparr>"
      by (auto simp: WriteJSON_def split: if_splits)
    from addBlobAndEntity_ok[OF a[unfolded x]]
    obtain d where "entities s' = entities s @ [d]" "URL d = ?id" "ERevision d = Revision ?id"
      by blast
    moreover have "entities (snd (servePostArchive env s eid req)) = entities s'"
      by (simp add: servePostArchive_def body a x updateStatsArchiveUpload_def
          IncCounterAsync_def Let_def)
    ultimately show ?thesis using resp by simp
  qed
  from body succ show ?thesis by blast
qed

lemma servePostArchive_revision_example:
  "FormHash (ex_request ''new'') \<noteq> ''sha384:old''
   \<and> next_revision ex_store (ex_ref ''trusty'' ''wordpress'' (- 1)) = 1
   \<and> fst (servePostArchive (ex_env no_faults) ex_store (ex_ref ''trusty'' ''wordpress'' (- 1))
        (ex_request ''new'')) = Inr \<lparr>RespId = Some (ex_ref ''trusty'' ''wordpress'' 1)\<rparr>
   \<and> (\<exists>d. entities (snd (servePostArchive (ex_env no_faults) ex_store
               (ex_ref ''trusty'' ''wordpress'' (- 1)) (ex_request ''new''))) =
             entities ex_store @ [d]
          \<and> URL d = ex_ref ''trusty'' ''wordpress'' 1 \<and> ERevision d = 1)"
proof -
  let ?id = "ex_ref ''trusty'' ''wordpress'' (- 1)"
  let ?d = "ex_entity (ex_ref ''trusty'' ''wordpress'' 0) ''blob-0'' ''sha384:old''"
  let ?P = "servePostArchive (ex_env no_faults) ex_store ?id (ex_request ''new'')"
  have wf: "\<forall>d\<in>set (entities ex_store). BaseURL d = baseURL (URL d)" by (simp add: ex_defs)
  have pre: "Series ?id \<noteq> ''''" "Revision ?id = - 1" "FormHash (ex_request ''new'') \<noteq> ''''"
      "ContentLength (ex_request ''new'') \<noteq> - 1"
    by (simp_all add: ex_defs)
  have io: "\<not> fails (ex_env no_faults) AtFindLatest" by (simp add: ex_defs)
  have fam: "family ex_store ?id = [?d]" by (simp add: family_def ex_defs)
  have h: "FormHash (ex_request ''new'') \<noteq> ''sha384:old''" by (simp add: ex_defs)
  have differs: "\<forall>d\<in>set (family ex_store ?id).
        (\<forall>d'\<in>set (family ex_store ?id). Revision (URL d') \<le> Revision (URL d))
          \<longrightarrow> BlobHash d \<noteq> FormHash (ex_request ''new'')"
    by (simp add: fam) (simp add: ex_defs)
  have nx: "next_revision ex_store ?id = 1"
    by (simp add: next_revision_def fam) (simp add: ex_defs)
  have iw: "int_wrap 1 = 1" by (simp add: int_wrap_def)
  have idn: "?id\<lparr>Revision := 1\<rparr> = ex_ref ''trusty'' ''wordpress'' 1" by (simp add: ex_ref_def)
  have run: "fst ?P = Inr \<lparr>RespId = Some (ex_ref ''trusty'' ''wordpress'' 1)\<rparr>"
    by (simp add: servePostArchive_def servePostArchive_body_def latestRevisionInfo_def
        updateStatsArchiveUpload_def error_of_def WriteJSON_def int_wrap_def
        model_defs prim_defs ex_defs Let_def)
  note t = servePostArchive_revision[OF wf pre io differs, unfolded nx iw idn]
  from t run have "\<exists>d. entities (snd ?P) = entities ex_store @ [d]
          \<and> URL d = ex_ref ''trusty'' ''wordpress'' 1 \<and> ERevision d = 1"
    by blast
  with h nx run show ?thesis by blast
qed

lemma ex_store_max_eq:
  "ex_store_max =
     \<lparr>blobs = [''blob-0'' \<mapsto> ''old'', ''blob-1'' \<mapsto> ''stk'', ''blob-2'' \<mapsto> ''max''],
      entities = entities ex_store @
        [(ex_entity (ex_ref ''trusty'' ''wordpress'' 9223372036854775807) ''blob-2'' ''sha384:max'')
           \<lparr>UploadTime := 1, CharmMeta := Some ex_meta\<rparr>],
      base_entities = base_entities ex_store,
      indexed = [ex_ref ''trusty'' ''wordpress'' 9223372036854775807],
      counters = [EntityStatsKey (ex_ref ''trusty'' ''wordpress'' (- 1)) StatsArchiveUpload],
      calls = [BlobPut ''blob-2'', BlobOpen ''blob-2'',
               BaseInsert (baseURL (ex_ref ''trusty'' ''wordpress'' 9223372036854775807)),
               EntityInsert (ex_ref ''trusty'' ''wordpress'' 9223372036854775807),
               SearchUpdate (ex_ref ''trusty'' ''wordpress'' 9223372036854775807)]\<rparr>"
  by (simp add: ex_store_max_def servePutArchive_def servePutArchive_body_def
        updateStatsArchiveUpload_def error_of_def WriteJSON_def baseURL_def
        model_defs prim_defs ex_defs Let_def)

text \<open>
  C3: the revision of a new upload is computed with Go's integer addition, which wraps
  around, so it is not always the maximum existing revision plus one. A PUT accepts any
  revision other than -1: on the store of the example, the PUT of the revision
  9223372036854775807 (the largest \<^verbatim>\<open>int\<close>) of \<^verbatim>\<open>wordpress\<close> succeeds. In the
  store it leaves, the revisions for the id's user, name and series are 0 and
  9223372036854775807, and the maximum plus one is 9223372036854775808; a POST with
  another hash is answered with the id of revision -9223372036854775808, and the entity
  is stored with that revision.
\<close>

theorem servePostArchive_revision_wraps:
  "fst (servePutArchive (ex_env no_faults) ex_store
          (ex_ref ''trusty'' ''wordpress'' 9223372036854775807) (ex_request ''max'')) =
     Inr \<lparr>RespId = Some (ex_ref ''trusty'' ''wordpress'' 9223372036854775807)\<rparr>
   \<and> map (\<lambda>d. Revision (URL d)) (family ex_store_max (ex_ref ''trusty'' ''wordpress'' (- 1))) =
       [0, 9223372036854775807]
   \<and> next_revision ex_store_max (ex_ref ''trusty'' ''wordpress'' (- 1)) = 9223372036854775808
   \<and> fst (servePostArchive ((ex_env no_faults)\<lparr>NewObjectId := ''blob-3''\<rparr>) ex_store_max
            (ex_ref ''trusty'' ''wordpress'' (- 1)) (ex_request ''new'')) =
       Inr \<lparr>RespId = Some (ex_ref ''trusty'' ''wordpress'' (- 9223372036854775808))\<rparr>
   \<and> map (\<lambda>d. Revision (URL d))
        (family (snd (servePostArchive ((ex_env no_faults)\<lparr>NewObjectId := ''blob-3''\<rparr>)
                        ex_store_max (ex_ref ''trusty'' ''wordpress'' (- 1)) (ex_request ''new'')))
           (ex_ref ''trusty'' ''wordpress'' (- 1))) =
       [0, 9223372036854775807, - 9223372036854775808]"
proof -
  have put: "fst (servePutArchive (ex_env no_faults) ex_store
          (ex_ref ''trusty'' ''wordpress'' 9223372036854775807) (ex_request ''max'')) =
     Inr \<lparr>RespId = Some (ex_ref ''trusty'' ''wordpress'' 9223372036854775807)\<rparr>"
    by (simp add: servePutArchive_def servePutArchive_body_def
        updateStatsArchiveUpload_def error_of_def WriteJSON_def
        model_defs prim_defs ex_defs Let_def)
  have fam: "map (\<lambda>d. Revision (URL d)) (family ex_store_max (ex_ref ''trusty'' ''wordpress'' (- 1))) =
       [0, 9223372036854775807]"
    by (simp add: ex_store_max_eq family_def ex_defs)
  have nx: "next_revision ex_store_max (ex_ref ''trusty'' ''wordpress'' (- 1)) = 9223372036854775808"
    by (simp add: next_revision_def ex_store_max_eq family_def ex_defs)
  have post: "fst (servePostArchive ((ex_env no_faults)\<lparr>NewObjectId := ''blob-3''\<rparr>) ex_store_max
            (ex_ref ''trusty'' ''wordpress'' (- 1)) (ex_request ''new'')) =
       Inr \<lparr>RespId = Some (ex_ref ''trusty'' ''wordpress'' (- 9223372036854775808))\<rparr>"
    by (simp add: ex_store_max_eq servePostArchive_def servePostArchive_body_def latestRevisionInfo_def
        updateStatsArchiveUpload_def error_of_def WriteJSON_def int_wrap_def
        FindEntities_def Entities_Find_def matchURL_def baseURL_def no_pass_def
        model_defs prim_defs ex_defs Let_def)
  have fam': "map (\<lambda>d. Revision (URL d))
        (family (snd (servePostArchive ((ex_env no_faults)\<lparr>NewObjectId := ''blob-3''\<rparr>)
                        ex_store_max (ex_ref ''trusty'' ''wordpress'' (- 1)) (ex_request ''new'')))
           (ex_ref ''trusty'' ''wordpress'' (- 1))) =
       [0, 9223372036854775807, - 9223372036854775808]"
    by (simp add: ex_store_max_eq servePostArchive_def servePostArchive_body_def latestRevisionInfo_def
        updateStatsArchiveUpload_def error_of_def WriteJSON_def int_wrap_def family_def
        FindEntities_def Entities_Find_def matchURL_def baseURL_def no_pass_def
        model_defs prim_defs ex_defs Let_def)
  from put fam nx post fam' show ?thesis by blast
qed

section \<open>Cached lookup of a file inside an archive\<close>

lemma OpenCachedBlobFile_invalid:
  assumes "BlobName entity \<noteq> ''''" "Contents entity fileId = Some z" "\<not> IsValid z"
  shows "OpenCachedBlobFile env s entity fileId isFile =
           (Inl (errgo_WithCausef ErrNotFound '''' []), s)"
  using assms by (simp add: OpenCachedBlobFile_def Let_def)

lemma OpenCachedBlobFile_scan:
  assumes n: "BlobName entity \<noteq> ''''"
    and h: "Contents entity fileId = None" "\<not> fails env AtOpenBlob"
      "blobs s (BlobName entity) = Some blob"
      "zip_NewReader env blob (int (length blob)) = Inr files"
      "(case find isFile files of
                  Some f \<Rightarrow> NewZipFile env f
                | None \<Rightarrow> (ZipFile_zero, Some params_ErrNotFound)) = (zipf, ferr)"
      "ferr = None \<or> cause (the ferr) = ErrNotFound"
      "\<not> fails env AtUpdateContents" "URL entity \<in> set (map URL (entities s))"
  shows "snd (OpenCachedBlobFile env s entity fileId isFile) =
              s\<lparr>calls := calls s @ [BlobOpen (BlobName entity),
                                      EntityUpdate (URL entity) fileId zipf],
                entities := map (\<lambda>doc. if URL doc = URL entity
                                        then doc\<lparr>Contents := (Contents doc)(fileId \<mapsto> zipf)\<rparr>
                                        else doc) (entities s)\<rparr>
            \<and> (find isFile files = None \<longrightarrow>
                  zipf = ZipFile_zero \<and> \<not> IsValid zipf
                  \<and> fst (OpenCachedBlobFile env s entity fileId isFile) =
                      Inl (errgo_WithCausef ErrNotFound '''' []))"
proof -
  have fz: "findZipFile env blob (int (length blob)) isFile = (zipf, ferr)"
    using h(4,5) by (simp add: findZipFile_def)
  have miss: "zipf = ZipFile_zero \<and> \<not> IsValid zipf" if "find isFile files = None"
    using that h(5) by (auto simp: ZipFile_zero_def)
  show ?thesis
    using n h(1,2,3,6,7,8) fz miss
    by (auto simp add: OpenCachedBlobFile_def BlobStore_Open_def Entities_UpdateId_def Let_def
        split: sum.splits)
qed

text \<open>
  C8: \<^verbatim>\<open>OpenCachedBlobFile\<close>, on an entity with its blob name populated (what the
  function's comment requires of the caller). When the entity's \<^verbatim>\<open>Contents\<close> holds
  an invalid locator for the file id, the call returns \<^verbatim>\<open>ErrNotFound\<close> and leaves the
  store as it was: the blob is not opened. When it holds none, the blob opens and the zip
  directory is read, the scan ends with a locator \<open>zipf\<close> (that of the first file the
  predicate accepts, or the zero locator, which is invalid, when it accepts none), and
  that locator is written to \<^verbatim>\<open>Contents\<close> of the entity's row whether or not a file
  was found: the storage calls are the opening of the blob and the update, and the rows
  after the call are those before it with the locator set.
\<close>

theorem OpenCachedBlobFile_cache:
  assumes "BlobName entity \<noteq> ''''"
  shows "(Contents entity fileId = Some z \<and> \<not> IsValid z \<longrightarrow>
            OpenCachedBlobFile env s entity fileId isFile =
              (Inl (errgo_WithCausef ErrNotFound '''' []), s))
       \<and> (Contents entity fileId = None \<and> \<not> fails env AtOpenBlob
            \<and> blobs s (BlobName entity) = Some blob
            \<and> zip_NewReader env blob (int (length blob)) = Inr files
            \<and> (case find isFile files of
                  Some f \<Rightarrow> NewZipFile env f
                | None \<Rightarrow> (ZipFile_zero, Some params_ErrNotFound)) = (zipf, ferr)
            \<and> (ferr = None \<or> cause (the ferr) = ErrNotFound)
            \<and> \<not> fails env AtUpdateContents \<and> URL entity \<in> set (map URL (entities s)) \<longrightarrow>
            snd (OpenCachedBlobFile env s entity fileId isFile) =
              s\<lparr>calls := calls s @ [BlobOpen (BlobName entity),
                                      EntityUpdate (URL entity) fileId zipf],
                entities := map (\<lambda>doc. if URL doc = URL entity
                                        then doc\<lparr>Contents := (Contents doc)(fileId \<mapsto> zipf)\<rparr>
                                        else doc) (entities s)\<rparr>
            \<and> (find isFile files = None \<longrightarrow>
                  zipf = ZipFile_zero \<and> \<not> IsValid zipf
                  \<and> fst (OpenCachedBlobFile env s entity fileId isFile) =
                      Inl (errgo_WithCausef ErrNotFound '''' [])))"
  using OpenCachedBlobFile_invalid[OF assms, of fileId z env s isFile]
    OpenCachedBlobFile_scan[OF assms, of fileId env s blob files isFile zipf ferr]
  by blast

theorem OpenCachedBlobFile_cache_witness:
  "BlobName (ex_entity (ex_ref ''trusty'' ''wordpress'' 0) ''blob-0'' ''sha384:old'') \<noteq> ''''
   \<and> OpenCachedBlobFile (ex_env no_faults) ex_store
        ((ex_entity (ex_ref ''trusty'' ''wordpress'' 0) ''blob-0'' ''sha384:old'')
           \<lparr>Contents := [FileIcon \<mapsto> ZipFile_zero]\<rparr>)
        FileIcon (isIconFile (ex_env no_faults)) =
       (Inl \<lparr>cause = ErrNotFound, msg = Text ''not found''\<rparr>, ex_store)
   \<and> snd (OpenCachedBlobFile (ex_env no_faults) ex_store
        (ex_entity (ex_ref ''trusty'' ''wordpress'' 0) ''blob-0'' ''sha384:old'')
        FileIcon (isIconFile (ex_env no_faults))) =
       ex_store\<lparr>calls := [BlobOpen ''blob-0'',
                           EntityUpdate (ex_ref ''trusty'' ''wordpress'' 0) FileIcon ZipFile_zero],
         entities :=
           [(ex_entity (ex_ref ''trusty'' ''wordpress'' 0) ''blob-0'' ''sha384:old'')
              \<lparr>Contents := [FileIcon \<mapsto> ZipFile_zero]\<rparr>,
            ex_entity (ex_ref ''bundle'' ''stack'' 0) ''blob-1'' ''sha384:stk'']\<rparr>
   \<and> fst (OpenCachedBlobFile (ex_env no_faults) ex_store
        (ex_entity (ex_ref ''trusty'' ''wordpress'' 0) ''blob-0'' ''sha384:old'')
        FileIcon (isIconFile (ex_env no_faults))) = Inl \<lparr>cause = ErrNotFound, msg = Text ''not found''\<rparr>"
proof -
  let ?e = "ex_entity (ex_ref ''trusty'' ''wordpress'' 0) ''blob-0'' ''sha384:old''"
  let ?c = "?e\<lparr>Contents := [FileIcon \<mapsto> ZipFile_zero]\<rparr>"
  let ?env = "ex_env no_faults"
  let ?files = "[\<lparr>FName = ''metadata.yaml'', FIsDir = False\<rparr>,
                 \<lparr>FName = ''README.md'', FIsDir = False\<rparr>]"
  have n: "BlobName ?e \<noteq> ''''" and nc: "BlobName ?c \<noteq> ''''" by (simp_all add: ex_defs)
  have c1: "Contents ?c FileIcon = Some ZipFile_zero" and c2: "\<not> IsValid ZipFile_zero"
    by (simp_all add: ZipFile_zero_def)
  from OpenCachedBlobFile_cache[OF nc, of FileIcon ZipFile_zero ?env ex_store] c1 c2
  have first: "OpenCachedBlobFile ?env ex_store ?c FileIcon (isIconFile ?env) =
       (Inl \<lparr>cause = ErrNotFound, msg = Text ''not found''\<rparr>, ex_store)"
    by (simp add: errgo_WithCausef_def)
  have h: "Contents ?e FileIcon = None" "\<not> fails ?env AtOpenBlob"
    "blobs ex_store (BlobName ?e) = Some ''old''"
    "zip_NewReader ?env ''old'' (int (length ''old'')) = Inr ?files"
    "(case find (isIconFile ?env) ?files of
         Some f \<Rightarrow> NewZipFile ?env f
       | None \<Rightarrow> (ZipFile_zero, Some params_ErrNotFound)) = (ZipFile_zero, Some params_ErrNotFound)"
    "Some params_ErrNotFound = None \<or> cause (the (Some params_ErrNotFound)) = ErrNotFound"
    "\<not> fails ?env AtUpdateContents" "URL ?e \<in> set (map URL (entities ex_store))"
    "find (isIconFile ?env) ?files = None"
    by (simp_all add: ex_defs isIconFile_def params_ErrNotFound_def)
  note t = OpenCachedBlobFile_cache[OF n, of FileIcon _ ?env ex_store "isIconFile ?env" "''old''"
      ?files ZipFile_zero "Some params_ErrNotFound"]
  from t h have second: "snd (OpenCachedBlobFile ?env ex_store ?e FileIcon (isIconFile ?env)) =
       ex_store\<lparr>calls := [BlobOpen ''blob-0'',
                           EntityUpdate (ex_ref ''trusty'' ''wordpress'' 0) FileIcon ZipFile_zero],
         entities := [?c, ex_entity (ex_ref ''bundle'' ''stack'' 0) ''blob-1'' ''sha384:stk'']\<rparr>"
    by (simp add: ex_defs)
  from t h have third: "fst (OpenCachedBlobFile ?env ex_store ?e FileIcon (isIconFile ?env)) =
       Inl \<lparr>cause = ErrNotFound, msg = Text ''not found''\<rparr>"
    by (simp add: errgo_WithCausef_def)
  from n first second third show ?thesis by blast
qed

section \<open>The icon of an entity\<close>

text \<open>
  C4, amended: \<^verbatim>\<open>GET id/icon.svg\<close> returns \<^verbatim>\<open>ErrNotFound\<close> for every id whose series
  is \<^verbatim>\<open>bundle\<close> (icons are not supported for bundles), whatever the store holds.
  For a fully qualified id of another series that names a stored entity
  with its blob name set, when the archive holds no \<^verbatim>\<open>icon.svg\<close> (the zip directory
  is read and no file is accepted, or an earlier search has left the invalid locator),
  and the lookup, the blob store and the update do not fail, the handler succeeds with
  the default icon as the body, the content type \<^verbatim>\<open>image/svg+xml\<close> and the cache
  control header.
\<close>

theorem serveIcon_default:
  "(Series eid = ''bundle'' \<longrightarrow>
      serveIcon env s eid fullySpecified =
        (Inl (errgo_WithCausef ErrNotFound ''icons not supported for bundles'' []), s))
   \<and> (Series eid \<noteq> ''bundle'' \<and> Series eid \<noteq> '''' \<and> Revision eid \<noteq> - 1
        \<and> \<not> fails env AtFindOne
        \<and> filter (\<lambda>doc. URL doc = eid) (entities s) = entity # others
        \<and> BlobName entity \<noteq> ''''
        \<and> (Contents entity FileIcon = None \<and> \<not> fails env AtOpenBlob
             \<and> blobs s (BlobName entity) = Some blob
             \<and> zip_NewReader env blob (int (length blob)) = Inr files
             \<and> find (isIconFile env) files = None
             \<and> \<not> fails env AtUpdateContents
           \<or> Contents entity FileIcon = Some z \<and> \<not> IsValid z) \<longrightarrow>
        fst (serveIcon env s eid fullySpecified) =
          Inr \<lparr>ContentType = ''image/svg+xml'',
                CacheControl = setArchiveCacheControl fullySpecified,
                RBody = defaultIcon env\<rparr>)"
proof -
  have a: "serveIcon env s eid fullySpecified =
        (Inl (errgo_WithCausef ErrNotFound ''icons not supported for bundles'' []), s)"
    if "Series eid = ''bundle''"
    using that by (simp add: serveIcon_def)
  have b: "fst (serveIcon env s eid fullySpecified) =
          Inr \<lparr>ContentType = ''image/svg+xml'',
                CacheControl = setArchiveCacheControl fullySpecified,
                RBody = defaultIcon env\<rparr>"
    if h: "Series eid \<noteq> ''bundle''" "Series eid \<noteq> ''''" "Revision eid \<noteq> - 1"
      "\<not> fails env AtFindOne" "filter (\<lambda>doc. URL doc = eid) (entities s) = entity # others"
      "BlobName entity \<noteq> ''''"
      and c: "Contents entity FileIcon = None \<and> \<not> fails env AtOpenBlob
             \<and> blobs s (BlobName entity) = Some blob
             \<and> zip_NewReader env blob (int (length blob)) = Inr files
             \<and> find (isIconFile env) files = None
             \<and> \<not> fails env AtUpdateContents
           \<or> Contents entity FileIcon = Some z \<and> \<not> IsValid z"
  proof -
    have "entity \<in> set (filter (\<lambda>doc. URL doc = eid) (entities s))" using h(5) by simp
    then have u: "URL entity = eid" and m: "URL entity \<in> set (map URL (entities s))" by auto
    have "filter (\<lambda>x. URL x = eid \<and> matchURL (URL x) eid) (entities s) =
          filter (\<lambda>doc. URL doc = eid) (entities s)"
      by (rule filter_cong) (auto simp: matchURL_def)
    then have ff: "filter (\<lambda>x. URL x = eid \<and> matchURL (URL x) eid) (entities s) = entity # others"
      by (simp only: h(5))
    have fe: "FindEntity env AtFindOne s eid = Inr entity"
      using h(1-4) by (simp add: FindEntity_def FindEntities_def Entities_Find_def Let_def ff)
    from c have "fst (OpenCachedBlobFile env s entity FileIcon (isIconFile env)) =
        Inl (errgo_WithCausef ErrNotFound '''' [])"
    proof
      assume c1: "Contents entity FileIcon = None \<and> \<not> fails env AtOpenBlob
             \<and> blobs s (BlobName entity) = Some blob
             \<and> zip_NewReader env blob (int (length blob)) = Inr files
             \<and> find (isIconFile env) files = None
             \<and> \<not> fails env AtUpdateContents"
      then have "(case find (isIconFile env) files of
                  Some f \<Rightarrow> NewZipFile env f
                | None \<Rightarrow> (ZipFile_zero, Some params_ErrNotFound)) =
                (ZipFile_zero, Some params_ErrNotFound)"
        and "Some params_ErrNotFound = None \<or> cause (the (Some params_ErrNotFound)) = ErrNotFound"
        by (simp_all add: params_ErrNotFound_def)
      with c1 m OpenCachedBlobFile_scan[OF h(6), of FileIcon env s blob files "isIconFile env"
          ZipFile_zero "Some params_ErrNotFound"]
      show ?thesis by blast
    next
      assume "Contents entity FileIcon = Some z \<and> \<not> IsValid z"
      with OpenCachedBlobFile_invalid[OF h(6), of FileIcon z env s "isIconFile env"]
      show ?thesis by simp
    qed
    then show ?thesis
      using h(1) by (auto simp add: serveIcon_def fe errgo_WithCausef_def split: prod.splits sum.splits)
  qed
  from a b show ?thesis by blast
qed

theorem serveIcon_default_witness:
  "fst (serveIcon (ex_env no_faults) ex_store (ex_ref ''trusty'' ''wordpress'' 0) True) =
     Inr \<lparr>ContentType = ''image/svg+xml'', CacheControl = ''public, max-age=31536000'',
           RBody = ''<svg/>''\<rparr>
   \<and> serveIcon (ex_env no_faults) ex_store (ex_ref ''bundle'' ''stack'' 0) True =
       (Inl \<lparr>cause = ErrNotFound, msg = Text ''icons not supported for bundles''\<rparr>, ex_store)"
proof -
  let ?env = "ex_env no_faults"
  let ?id = "ex_ref ''trusty'' ''wordpress'' 0"
  let ?e = "ex_entity ?id ''blob-0'' ''sha384:old''"
  let ?files = "[\<lparr>FName = ''metadata.yaml'', FIsDir = False\<rparr>,
                 \<lparr>FName = ''README.md'', FIsDir = False\<rparr>]"
  note t = serveIcon_default[of ?id ?env ex_store True ?e "[]" "''old''" ?files ZipFile_zero]
  have h: "Series ?id \<noteq> ''bundle''" "Series ?id \<noteq> ''''" "Revision ?id \<noteq> - 1"
    "\<not> fails ?env AtFindOne" "filter (\<lambda>doc. URL doc = ?id) (entities ex_store) = [?e]"
    "BlobName ?e \<noteq> ''''" "Contents ?e FileIcon = None" "\<not> fails ?env AtOpenBlob"
    "blobs ex_store (BlobName ?e) = Some ''old''"
    "zip_NewReader ?env ''old'' (int (length ''old'')) = Inr ?files"
    "find (isIconFile ?env) ?files = None" "\<not> fails ?env AtUpdateContents"
    by (simp_all add: ex_defs isIconFile_def)
  from t h have a: "fst (serveIcon ?env ex_store ?id True) =
     Inr \<lparr>ContentType = ''image/svg+xml'', CacheControl = ''public, max-age=31536000'',
           RBody = ''<svg/>''\<rparr>"
    by (simp add: setArchiveCacheControl_def ex_env_def)
  have "Series (ex_ref ''bundle'' ''stack'' 0) = ''bundle''" by (simp add: ex_ref_def)
  with serveIcon_default[of "ex_ref ''bundle'' ''stack'' 0" ?env ex_store True]
  have b: "serveIcon ?env ex_store (ex_ref ''bundle'' ''stack'' 0) True =
       (Inl \<lparr>cause = ErrNotFound, msg = Text ''icons not supported for bundles''\<rparr>, ex_store)"
    by (simp add: errgo_WithCausef_def)
  from a b show ?thesis by blast
qed

text \<open>
  C4 as stated fails: the id \<^verbatim>\<open>bundle/stack-0\<close> names a stored entity whose archive
  holds no \<^verbatim>\<open>icon.svg\<close>, and the handler returns \<^verbatim>\<open>ErrNotFound\<close>.
\<close>

theorem serveIcon_bundle_not_found:
  "ex_entity (ex_ref ''bundle'' ''stack'' 0) ''blob-1'' ''sha384:stk'' \<in> set (entities ex_store)
   \<and> blobs ex_store ''blob-1'' = Some ''stk''
   \<and> zip_NewReader (ex_env no_faults) ''stk'' 3 =
        Inr [\<lparr>FName = ''metadata.yaml'', FIsDir = False\<rparr>, \<lparr>FName = ''README.md'', FIsDir = False\<rparr>]
   \<and> fst (serveIcon (ex_env no_faults) ex_store (ex_ref ''bundle'' ''stack'' 0) True) =
       Inl \<lparr>cause = ErrNotFound, msg = Text ''icons not supported for bundles''\<rparr>"
  by (simp add: serveIcon_def errgo_WithCausef_def ex_defs)

section \<open>The error of a bundle that fails verification\<close>

lemma addBlobAndEntity_addEntity:
  assumes put: "fst (BlobStore_PutUnchallenged env s body (NewObjectId env) contentLength hash) = None"
    and opn: "\<not> fails env AtOpenBlob"
    and a: "addEntity env
              (s\<lparr>blobs := (blobs s)(NewObjectId env \<mapsto> body),
                 calls := calls s @ [BlobPut (NewObjectId env), BlobOpen (NewObjectId env)]\<rparr>)
              eid body (NewObjectId env) hash contentLength = (Some x, s3)"
  shows "fst (addBlobAndEntity env s eid body hash contentLength) =
           Some (errgo_Mask x (errgo_Is ErrDuplicateUpload))"
  using put opn a
  by (auto simp add: addBlobAndEntity_def BlobStore_PutUnchallenged_def BlobStore_Open_def Let_def
      split: if_splits)

text \<open>
  C6, amended: for a bundle upload (the blob is written and reopened, the archive reads
  as a bundle) whose verification against the resolved charms fails with a list of
  verification errors, the error returned has the message
  \<^verbatim>\<open>bundle verification failed: \<close> followed by the JSON encoding of the individual
  messages sorted lexicographically (\<open>sort\<close> orders strings byte by byte, as
  \<^verbatim>\<open>sort.Strings\<close> does); it has no cause set.
\<close>

theorem bundle_verification_message:
  assumes put: "fst (BlobStore_PutUnchallenged env s body (NewObjectId env) contentLength hash) = None"
    and opn: "\<not> fails env AtOpenBlob"
    and bnd: "Series eid = ''bundle''"
    and read: "ReadBundleArchive env body contentLength = Inr b"
    and charms: "Handler_bundleCharms env
              (s\<lparr>blobs := (blobs s)(NewObjectId env \<mapsto> body),
                 calls := calls s @ [BlobPut (NewObjectId env), BlobOpen (NewObjectId env)]\<rparr>)
              (RequiredCharms env b) = Inr charms"
    and verify: "VerifyWithCharms env b charms = Some (VerificationError errors)"
    and json: "json_Marshal env (sort errors) = Inr enc"
  shows "fst (addBlobAndEntity env s eid body hash contentLength) =
           Some \<lparr>cause = NoCause, msg = Prefixed (Text ''bundle verification failed'') (Text enc)\<rparr>
       \<and> Error sp (Prefixed (Text ''bundle verification failed'') (Text enc)) =
           ''bundle verification failed: '' @ enc
       \<and> sorted (sort errors) \<and> mset (sort errors) = mset errors"
proof -
  let ?s2 = "s\<lparr>blobs := (blobs s)(NewObjectId env \<mapsto> body),
                 calls := calls s @ [BlobPut (NewObjectId env), BlobOpen (NewObjectId env)]\<rparr>"
  have "addEntity env ?s2 eid body (NewObjectId env) hash contentLength =
          (Some (errgo_Notef (errgo_New enc) ''bundle verification failed'' []), ?s2)"
    using bnd read charms verify json
    by (simp add: addEntity_def verificationError_def Let_def)
  from addBlobAndEntity_addEntity[OF put opn this]
  show ?thesis
    by (simp add: errgo_Mask_def errgo_Notef_def errgo_New_def errgo_Is_def)
qed

theorem bundle_verification_message_witness:
  "Series (ex_ref ''bundle'' ''stack'' 1) = ''bundle''
   \<and> sort [''no charm mysql'', ''no charm memcached''] = [''no charm memcached'', ''no charm mysql'']
   \<and> fst (addBlobAndEntity (ex_env no_faults) ex_store (ex_ref ''bundle'' ''stack'' 1)
            ''new'' ''sha384:new'' 3) =
       Some \<lparr>cause = NoCause,
             msg = Prefixed (Text ''bundle verification failed'')
                     (Text (ex_json [''no charm memcached'', ''no charm mysql'']))\<rparr>"
proof -
  let ?env = "ex_env no_faults"
  let ?id = "ex_ref ''bundle'' ''stack'' 1"
  let ?s2 = "ex_store\<lparr>blobs := (blobs ex_store)(NewObjectId ?env \<mapsto> ''new''),
                 calls := calls ex_store @ [BlobPut (NewObjectId ?env), BlobOpen (NewObjectId ?env)]\<rparr>"
  let ?H = "Handler_bundleCharms ?env ?s2 (RequiredCharms ?env ex_bundle)"
  have put: "fst (BlobStore_PutUnchallenged ?env ex_store ''new'' (NewObjectId ?env) 3 ''sha384:new'') = None"
    by (simp add: BlobStore_PutUnchallenged_def ex_defs Let_def)
  have opn: "\<not> fails ?env AtOpenBlob" by (simp add: ex_defs)
  have bnd: "Series ?id = ''bundle''" by (simp add: ex_ref_def)
  have read: "ReadBundleArchive ?env ''new'' 3 = Inr ex_bundle" by (simp add: ex_env_def)
  have H: "?H = Inr [''wordpress'' \<mapsto>
                 entityCharm (ex_entity (ex_ref ''trusty'' ''wordpress'' 0) ''blob-0'' ''sha384:old'')]"
    by (simp add: Handler_bundleCharms_def Entities_Find_def errgo_WithCausef_def ex_defs Let_def)
  have verify: "VerifyWithCharms ?env ex_bundle
                  [''wordpress'' \<mapsto>
                     entityCharm (ex_entity (ex_ref ''trusty'' ''wordpress'' 0) ''blob-0'' ''sha384:old'')] =
        Some (VerificationError [''no charm mysql'', ''no charm memcached''])"
    by (simp add: ex_env_def ex_bundle_def)
  have srt: "sort [''no charm mysql'', ''no charm memcached''] =
               [''no charm memcached'', ''no charm mysql'']"
    by simp
  have json: "json_Marshal ?env (sort [''no charm mysql'', ''no charm memcached'']) =
                Inr (ex_json [''no charm memcached'', ''no charm mysql''])"
    unfolding srt by (simp add: ex_env_def)
  from bundle_verification_message[OF put opn bnd read H verify json] bnd srt
  show ?thesis by blast
qed

text \<open>
  C6 as stated fails: a POST of a bundle that deploys two charms the store does not hold
  returns an error whose message is not the JSON encoding of the sorted messages: the
  text \<^verbatim>\<open>bundle verification failed: \<close> stands before it.
\<close>

theorem bundle_verification_message_not_json:
  "fst (servePostArchive (ex_env no_faults) ex_store (ex_ref ''bundle'' ''stack'' (- 1))
          (ex_request ''new'')) =
     Inl \<lparr>cause = NoCause,
           msg = Prefixed (Text ''bundle verification failed'')
                   (Text (ex_json (sort [''no charm mysql'', ''no charm memcached''])))\<rparr>
   \<and> json_Marshal (ex_env no_faults) (sort [''no charm mysql'', ''no charm memcached'']) =
       Inr (ex_json (sort [''no charm mysql'', ''no charm memcached'']))
   \<and> Error (\<lambda>f args. f)
        (Prefixed (Text ''bundle verification failed'')
           (Text (ex_json (sort [''no charm mysql'', ''no charm memcached''])))) =
       ''bundle verification failed: '' @ ex_json [''no charm memcached'', ''no charm mysql'']
   \<and> Error (\<lambda>f args. f)
        (Prefixed (Text ''bundle verification failed'')
           (Text (ex_json (sort [''no charm mysql'', ''no charm memcached''])))) \<noteq>
       ex_json (sort [''no charm mysql'', ''no charm memcached''])"
  by (simp add: servePostArchive_def servePostArchive_body_def latestRevisionInfo_def
        updateStatsArchiveUpload_def error_of_def WriteJSON_def int_wrap_def
        Handler_bundleCharms_def verificationError_def
        model_defs prim_defs ex_defs Let_def)

end
